theory Spec2Isabelle
  imports Complex_Main "HOL-Library.Word"
begin

section \<open>JavaScript values and strings\<close>

text \<open>
  A JavaScript string is a sequence of UTF-16 code units. The model uses \<^typ>\<open>string\<close>,
  whose characters are the code units U+0000 to U+00FF (Basic Latin and Latin-1): within
  that range white space, case conversion and comparison are modelled exactly as
  ECMAScript defines them; strings with code units above U+00FF are outside the model.
\<close>

text \<open>
  The values the service inspects without knowing their type: what a remote call rejects
  with (\<open>catch (error)\<close>), and what a property read on an object literal yields.
  An object is described by the three observations the source makes of it:
  \<open>error instanceof Error\<close>, \<open>error.message\<close>, and the property \<open>code\<close>
  (\<open>None\<close> when \<open>'code' in error\<close> is false).
\<close>

datatype js_value =
    JsUndefined
  | JsNull
  | JsBoolean bool
  | JsNumber real
  | JsNaN
  | JsInfinity bool
  | JsString string
  | JsFunction string
  | JsObject bool string "js_value option"

text \<open>ToBoolean, as used by \<open>!x\<close>, \<open>x || y\<close>, \<open>x && y\<close> and \<open>x ? a : b\<close>.\<close>

fun truthy :: "js_value \<Rightarrow> bool" where
  "truthy JsUndefined = False"
| "truthy JsNull = False"
| "truthy (JsBoolean b) = b"
| "truthy (JsNumber r) = (r \<noteq> 0)"
| "truthy JsNaN = False"
| "truthy (JsInfinity _) = True"
| "truthy (JsString s) = (s \<noteq> [])"
| "truthy (JsFunction _) = True"
| "truthy (JsObject _ _ _) = True"

text \<open>\<open>typeof v === 'object'\<close>: true of objects and of \<open>null\<close>, false of functions.\<close>

fun typeof_object :: "js_value \<Rightarrow> bool" where
  "typeof_object JsNull = True"
| "typeof_object (JsObject _ _ _) = True"
| "typeof_object _ = False"

fun instanceof_Error :: "js_value \<Rightarrow> bool" where
  "instanceof_Error (JsObject is_error _ _) = is_error"
| "instanceof_Error _ = False"

text \<open>\<open>error.message\<close>, read by the source only after \<open>error instanceof Error\<close>.\<close>

fun message_of :: "js_value \<Rightarrow> string" where
  "message_of (JsObject _ m _) = m"
| "message_of _ = []"

text \<open>\<open>'code' in error\<close> and \<open>error.code\<close>, evaluated by the source only on a truthy object.\<close>

fun code_in :: "js_value \<Rightarrow> bool" where
  "code_in (JsObject _ _ (Some _)) = True"
| "code_in _ = False"

fun code_of :: "js_value \<Rightarrow> js_value" where
  "code_of (JsObject _ _ (Some c)) = c"
| "code_of _ = JsUndefined"

section \<open>File utilities (\<open>utils/file.utils.ts\<close>)\<close>

text \<open>
  \<open>String.prototype.trim\<close> removes WhiteSpace and LineTerminator code units from both
  ends. In the range of the model these are TAB, LF, VT, FF, CR, SPACE and NO-BREAK SPACE.
\<close>

definition isWhiteSpace :: "char \<Rightarrow> bool" where
  "isWhiteSpace c \<longleftrightarrow>
     c \<in> {CHR 0x09, CHR 0x0A, CHR 0x0B, CHR 0x0C, CHR 0x0D, CHR 0x20, CHR 0xA0}"

definition trimStart :: "string \<Rightarrow> string" where
  "trimStart s = dropWhile isWhiteSpace s"

definition trimEnd :: "string \<Rightarrow> string" where
  "trimEnd s = rev (dropWhile isWhiteSpace (rev s))"

definition trim :: "string \<Rightarrow> string" where
  "trim s = trimEnd (trimStart s)"

text \<open>The character class of \<open>/[<>:"/\\|?*]/\<close>: nine characters.\<close>

definition invalidChars :: "char set" where
  "invalidChars =
     {CHR ''<'', CHR ''>'', CHR '':'', CHR 0x22, CHR ''/'', CHR 0x5C, CHR ''|'', CHR ''?'', CHR ''*''}"

text \<open>\<open>invalidChars.test(fileName)\<close>: some character of the name is in the class.\<close>

definition invalidChars_test :: "string \<Rightarrow> bool" where
  "invalidChars_test fileName \<longleftrightarrow> list_ex (\<lambda>c. c \<in> invalidChars) fileName"

definition validateFileName :: "string \<Rightarrow> bool" where
  "validateFileName fileName \<longleftrightarrow>
     \<not> invalidChars_test fileName \<and> length (trim fileName) > 0"

text \<open>
  \<open>String.prototype.toLowerCase\<close> on the code units of the model: the letters A to Z and
  the Latin-1 capitals U+00C0 to U+00DE (U+00D7, the multiplication sign, is not a letter)
  map to their lower-case forms; every other code unit is unchanged.
\<close>

definition upperCase :: string where
  "upperCase = ''ABCDEFGHIJKLMNOPQRSTUVWXYZ'' @
     [CHR 0xC0, CHR 0xC1, CHR 0xC2, CHR 0xC3, CHR 0xC4, CHR 0xC5, CHR 0xC6, CHR 0xC7,
      CHR 0xC8, CHR 0xC9, CHR 0xCA, CHR 0xCB, CHR 0xCC, CHR 0xCD, CHR 0xCE, CHR 0xCF,
      CHR 0xD0, CHR 0xD1, CHR 0xD2, CHR 0xD3, CHR 0xD4, CHR 0xD5, CHR 0xD6,
      CHR 0xD8, CHR 0xD9, CHR 0xDA, CHR 0xDB, CHR 0xDC, CHR 0xDD, CHR 0xDE]"

definition lowerCase :: string where
  "lowerCase = ''abcdefghijklmnopqrstuvwxyz'' @
     [CHR 0xE0, CHR 0xE1, CHR 0xE2, CHR 0xE3, CHR 0xE4, CHR 0xE5, CHR 0xE6, CHR 0xE7,
      CHR 0xE8, CHR 0xE9, CHR 0xEA, CHR 0xEB, CHR 0xEC, CHR 0xED, CHR 0xEE, CHR 0xEF,
      CHR 0xF0, CHR 0xF1, CHR 0xF2, CHR 0xF3, CHR 0xF4, CHR 0xF5, CHR 0xF6,
      CHR 0xF8, CHR 0xF9, CHR 0xFA, CHR 0xFB, CHR 0xFC, CHR 0xFD, CHR 0xFE]"

definition toLowerCase :: "string \<Rightarrow> string" where
  "toLowerCase s =
     map (\<lambda>c. case map_of (zip upperCase lowerCase) c of Some l \<Rightarrow> l | None \<Rightarrow> c) s"

text \<open>
  \<open>s.split(sep)\<close> for a one-character separator: the pieces between the separators, in
  order; the result is never empty (\<open>''.split('.')\<close> is \<open>['']\<close>), so the first case of the
  inner match below never arises.
\<close>

fun split :: "char \<Rightarrow> string \<Rightarrow> string list" where
  "split sep [] = [[]]"
| "split sep (c # cs) =
     (if c = sep then [] # split sep cs
      else (case split sep cs of
              [] \<Rightarrow> [[c]]
            | piece # pieces \<Rightarrow> (c # piece) # pieces))"

text \<open>\<open>xs.pop()\<close>: the last element, \<open>undefined\<close> (\<open>None\<close>) on an empty array.\<close>

definition pop :: "'a list \<Rightarrow> 'a option" where
  "pop xs = (if xs = [] then None else Some (last xs))"

text \<open>The own properties of the object literal \<open>mimeTypes\<close>, in source order.\<close>

definition mimeTypes :: "(string \<times> string) list" where
  "mimeTypes =
     [(''jpg'', ''image/jpeg''),
      (''jpeg'', ''image/jpeg''),
      (''png'', ''image/png''),
      (''gif'', ''image/gif''),
      (''webp'', ''image/webp''),
      (''pdf'', ''application/pdf''),
      (''doc'', ''application/msword''),
      (''docx'', ''application/vnd.openxmlformats-officedocument.wordprocessingml.document''),
      (''xls'', ''application/vnd.ms-excel''),
      (''xlsx'', ''application/vnd.openxmlformats-officedocument.spreadsheetml.sheet''),
      (''ppt'', ''application/vnd.ms-powerpoint''),
      (''pptx'', ''application/vnd.openxmlformats-officedocument.presentationml.presentation''),
      (''txt'', ''text/plain''),
      (''csv'', ''text/csv''),
      (''json'', ''application/json''),
      (''xml'', ''application/xml''),
      (''zip'', ''application/zip''),
      (''rar'', ''application/x-rar-compressed''),
      (''7z'', ''application/x-7z-compressed''),
      (''mp4'', ''video/mp4''),
      (''avi'', ''video/x-msvideo''),
      (''mov'', ''video/quicktime''),
      (''mp3'', ''audio/mpeg''),
      (''wav'', ''audio/wav''),
      (''flac'', ''audio/flac'')]"

text \<open>
  \<open>mimeTypes\<close> is an ordinary object literal, so the property read \<open>mimeTypes[extension]\<close>
  falls through to \<open>Object.prototype\<close> when the object has no own property of that name.
  These are the properties every object inherits; \<open>__proto__\<close> read on \<open>mimeTypes\<close> yields
  \<open>Object.prototype\<close> itself, an object that is no \<open>Error\<close> and has no \<open>code\<close>.
\<close>

definition Object_prototype :: "(string \<times> js_value) list" where
  "Object_prototype =
     [(''constructor'', JsFunction ''Object''),
      (''__defineGetter__'', JsFunction ''__defineGetter__''),
      (''__defineSetter__'', JsFunction ''__defineSetter__''),
      (''hasOwnProperty'', JsFunction ''hasOwnProperty''),
      (''__lookupGetter__'', JsFunction ''__lookupGetter__''),
      (''__lookupSetter__'', JsFunction ''__lookupSetter__''),
      (''isPrototypeOf'', JsFunction ''isPrototypeOf''),
      (''propertyIsEnumerable'', JsFunction ''propertyIsEnumerable''),
      (''toString'', JsFunction ''toString''),
      (''valueOf'', JsFunction ''valueOf''),
      (''__proto__'', JsObject False [] None),
      (''toLocaleString'', JsFunction ''toLocaleString'')]"

definition mimeTypes_get :: "string \<Rightarrow> js_value" where
  "mimeTypes_get key =
     (case map_of mimeTypes key of
        Some v \<Rightarrow> JsString v
      | None \<Rightarrow> (case map_of Object_prototype key of Some v \<Rightarrow> v | None \<Rightarrow> JsUndefined))"

text \<open>
  \<open>getMimeTypeFromExtension\<close>. The extension is the lower-cased last piece of the name
  split at the dots: the text after the last dot, and the whole name when it has no dot.
  Declared to return a string; what it returns at run time is the value read from the table.
\<close>

definition getMimeTypeFromExtension :: "string \<Rightarrow> js_value" where
  "getMimeTypeFromExtension fileName =
     (let extension = map_option toLowerCase (pop (split (CHR ''.'') fileName)) in
      case extension of
        None \<Rightarrow> JsString ''application/octet-stream''
      | Some ext \<Rightarrow>
          if ext \<noteq> [] then
            (let v = mimeTypes_get ext in
             if truthy v then v else JsString ''application/octet-stream'')
          else JsString ''application/octet-stream'')"

text \<open>
  A \<open>Buffer\<close> is a sequence of bytes; a \<open>Readable\<close> is described by the chunks it yields.
  \<open>Readable.from(buffer)\<close> yields the buffer as one chunk.
\<close>

type_synonym buffer = "8 word list"

datatype readable = Readable "buffer list"

definition bufferToStream :: "buffer \<Rightarrow> readable" where
  "bufferToStream buffer = Readable [buffer]"

subsection \<open>Formatting a size\<close>

text \<open>
  A JavaScript number, with its arithmetic modelled exactly: a finite number is a real,
  and the rounding of double-precision results is not part of the model; negative zero
  is identified with zero. The operations below are the built-in ones \<open>formatFileSize\<close>
  calls, each as the language specification documents it.
\<close>

datatype js_number = Finite real | NaN | PosInfinity | NegInfinity

text \<open>\<open>bytes: string | number\<close>.\<close>

datatype string_or_number = AString string | ANumber js_number

text \<open>Decimal digits, their values, and the decimal numeral of a natural number.\<close>

definition isDigit :: "char \<Rightarrow> bool" where
  "isDigit c \<longleftrightarrow> c \<in> set ''0123456789''"

definition digit_value :: "char \<Rightarrow> nat" where
  "digit_value c = of_char c - 48"

definition digits_value :: "string \<Rightarrow> nat" where
  "digits_value ds = foldl (\<lambda>a c. 10 * a + digit_value c) 0 ds"

definition digit_char :: "nat \<Rightarrow> char" where
  "digit_char d = ''0123456789'' ! (d mod 10)"

fun show_nat :: "nat \<Rightarrow> string" where
  "show_nat n = (if n < 10 then [digit_char n] else show_nat (n div 10) @ [digit_char (n mod 10)])"

declare show_nat.simps [simp del]

text \<open>
  \<open>parseInt(string, 10)\<close>: leading white space is skipped, a sign is read, and the
  longest run of decimal digits that follows is the value; with no digit the result is
  \<open>NaN\<close>. Whatever follows the digits is ignored.
\<close>

definition parseInt :: "string \<Rightarrow> js_number" where
  "parseInt string =
     (let S = trimStart string;
          negative = (S \<noteq> [] \<and> hd S = CHR ''-'');
          S' = (if S \<noteq> [] \<and> (hd S = CHR ''+'' \<or> hd S = CHR ''-'') then tl S else S);
          Z = takeWhile isDigit S'
      in if Z = [] then NaN
         else Finite (if negative then - real (digits_value Z) else real (digits_value Z)))"

text \<open>\<open>Math.log\<close>: the natural logarithm; \<open>NaN\<close> below zero, minus infinity at zero.\<close>

fun Math_log :: "js_number \<Rightarrow> js_number" where
  "Math_log (Finite x) = (if x < 0 then NaN else if x = 0 then NegInfinity else Finite (ln x))"
| "Math_log NaN = NaN"
| "Math_log PosInfinity = PosInfinity"
| "Math_log NegInfinity = NaN"

text \<open>The operator \<open>/\<close>.\<close>

fun js_divide :: "js_number \<Rightarrow> js_number \<Rightarrow> js_number" where
  "js_divide (Finite a) (Finite b) =
     (if b \<noteq> 0 then Finite (a / b)
      else if a = 0 then NaN else if 0 < a then PosInfinity else NegInfinity)"
| "js_divide (Finite a) PosInfinity = Finite 0"
| "js_divide (Finite a) NegInfinity = Finite 0"
| "js_divide PosInfinity (Finite b) = (if b < 0 then NegInfinity else PosInfinity)"
| "js_divide NegInfinity (Finite b) = (if b < 0 then PosInfinity else NegInfinity)"
| "js_divide _ _ = NaN"

fun Math_floor :: "js_number \<Rightarrow> js_number" where
  "Math_floor (Finite x) = Finite (of_int \<lfloor>x\<rfloor>)"
| "Math_floor x = x"

text \<open>\<open>Math.pow(k, i)\<close> for the base \<open>k = 1024\<close> of the source.\<close>

fun Math_pow_1024 :: "js_number \<Rightarrow> js_number" where
  "Math_pow_1024 (Finite y) = Finite (1024 powr y)"
| "Math_pow_1024 NaN = NaN"
| "Math_pow_1024 PosInfinity = PosInfinity"
| "Math_pow_1024 NegInfinity = Finite 0"

text \<open>
  \<open>x.toFixed(2)\<close>: the sign, then the integer \<open>n\<close> nearest to a hundred times the
  magnitude (the larger of two equally near), printed with a point before its last two
  digits. From \<open>10 ^ 21\<close> on the method prints in exponent notation, which is not
  modelled (\<open>None\<close>).
\<close>

fun toFixed2 :: "js_number \<Rightarrow> string option" where
  "toFixed2 (Finite x) =
     (if \<bar>x\<bar> \<ge> 10 ^ 21 then None
      else let n = nat \<lfloor>\<bar>x\<bar> * 100 + 1 / 2\<rfloor>
           in Some ((if x < 0 then ''-'' else []) @ show_nat (n div 100) @ ''.''
                    @ [digit_char (n mod 100 div 10), digit_char (n mod 10)]))"
| "toFixed2 NaN = Some ''NaN''"
| "toFixed2 PosInfinity = Some ''Infinity''"
| "toFixed2 NegInfinity = Some ''-Infinity''"

text \<open>
  \<open>parseFloat\<close>, on the strings \<open>toFixed\<close> produces: \<open>NaN\<close>, the infinities, and a decimal
  numeral with an optional sign and an optional fraction. Other strings are not
  modelled (\<open>None\<close>).
\<close>

definition parseFloat :: "string \<Rightarrow> js_number option" where
  "parseFloat s =
     (if s = ''NaN'' then Some NaN
      else if s = ''Infinity'' then Some PosInfinity
      else if s = ''-Infinity'' then Some NegInfinity
      else
        let negative = (s \<noteq> [] \<and> hd s = CHR ''-'');
            body = (if negative then tl s else s);
            whole = takeWhile isDigit body;
            rest = dropWhile isDigit body;
            fraction = tl rest;
            sign = (if negative then - 1 else 1)
        in if whole \<noteq> [] \<and> rest = [] then Some (Finite (sign * real (digits_value whole)))
           else if whole \<noteq> [] \<and> rest \<noteq> [] \<and> hd rest = CHR ''.'' \<and> fraction \<noteq> []
                   \<and> list_all isDigit fraction
           then Some (Finite (sign * (real (digits_value whole)
                                       + real (digits_value fraction) / 10 ^ length fraction)))
           else None)"

text \<open>
  The conversion of a number to a string, as \<open>+\<close> with a string operand performs it. For
  a whole number of hundredths below \<open>10 ^ 21\<close> it is the decimal numeral with the fewest
  digits: the integer part, then up to two fraction digits without trailing zeros.
  Other finite numbers are not modelled (\<open>None\<close>).
\<close>

definition show_hundredths :: "nat \<Rightarrow> string" where
  "show_hundredths m =
     show_nat (m div 100) @
     (if m mod 100 = 0 then []
      else ''.'' @ [digit_char (m mod 100 div 10)]
           @ (if m mod 10 = 0 then [] else [digit_char (m mod 10)]))"

fun Number_toString :: "js_number \<Rightarrow> string option" where
  "Number_toString (Finite y) =
     (if of_int \<lfloor>\<bar>y\<bar> * 100\<rfloor> = \<bar>y\<bar> * 100 \<and> \<bar>y\<bar> < 10 ^ 21
      then Some ((if y < 0 then ''-'' else []) @ show_hundredths (nat \<lfloor>\<bar>y\<bar> * 100\<rfloor>))
      else None)"
| "Number_toString NaN = Some ''NaN''"
| "Number_toString PosInfinity = Some ''Infinity''"
| "Number_toString NegInfinity = Some ''-Infinity''"

text \<open>
  \<open>sizes[i]\<close> as the right operand of \<open>+\<close>: the element at a whole index within the
  array, and the text \<open>undefined\<close> for any other index.
\<close>

definition sizes :: "string list" where
  "sizes = [''Bytes'', ''KB'', ''MB'', ''GB'', ''TB'']"

fun sizes_at :: "js_number \<Rightarrow> string" where
  "sizes_at (Finite y) =
     (if of_int \<lfloor>y\<rfloor> = y \<and> 0 \<le> y \<and> y < real (length sizes) then sizes ! nat \<lfloor>y\<rfloor>
      else ''undefined'')"
| "sizes_at _ = ''undefined''"

text \<open>
  \<open>formatFileSize\<close>. The result is \<open>None\<close> only where a conversion above is not modelled,
  which no argument reaches (\<open>formatFileSize_total\<close> below).
\<close>

definition formatFileSize :: "string_or_number \<Rightarrow> string option" where
  "formatFileSize bytes =
     (let size = (case bytes of AString s \<Rightarrow> parseInt s | ANumber n \<Rightarrow> n) in
      if size = Finite 0 then Some ''0 Bytes''
      else
        let i = Math_floor (js_divide (Math_log size) (Math_log (Finite 1024)))
        in case toFixed2 (js_divide size (Math_pow_1024 i)) of
             None \<Rightarrow> None
           | Some fixed \<Rightarrow>
               (case parseFloat fixed of
                  None \<Rightarrow> None
                | Some rounded \<Rightarrow>
                    (case Number_toString rounded of
                       None \<Rightarrow> None
                     | Some text \<Rightarrow> Some (text @ '' '' @ sizes_at i))))"

section \<open>Constants (\<open>constants/index.ts\<close>)\<close>

definition DRIVE_API_VERSION :: string where
  "DRIVE_API_VERSION = ''v3''"

definition DEFAULT_FILE_FIELDS :: string where
  "DEFAULT_FILE_FIELDS = ''id,name,mimeType,size,parents,createdTime,modifiedTime''"

section \<open>Interfaces (\<open>interfaces/google-drive.interface.ts\<close>)\<close>

text \<open>An optional property (\<open>p?: T\<close>) is an \<open>option\<close>: \<open>None\<close> is \<open>undefined\<close>.\<close>

record GoogleDriveModuleOptions =
  clientId :: string
  clientSecret :: string
  redirectUri :: string
  refreshToken :: "string option"
  accessToken :: "string option"
  scope :: "string list option"

record UploadFileOptions =
  name :: string
  parents :: "string list option"
  mimeType :: "string option"

record FileMetadata =
  file_id :: string
  file_name :: string
  file_mimeType :: string
  file_size :: string
  file_parents :: "string list option"
  file_createdTime :: string
  file_modifiedTime :: string

record UploadResult = FileMetadata +
  downloadUrl :: "string option"

text \<open>\<open>expiresAt\<close> is a \<open>Date\<close>, held as its time value in milliseconds.\<close>

record UserGoogleDriveCredentials =
  user_accessToken :: string
  user_refreshToken :: "string option"
  user_expiresAt :: "int option"

record UserDriveOptions =
  credentials :: UserGoogleDriveCredentials

section \<open>Error taxonomy (\<open>errors/google-drive.error.ts\<close>)\<close>

text \<open>
  One record for the class hierarchy: \<open>err_name\<close> is the \<open>name\<close> each constructor sets
  (together with the prototype of the same class), the other fields are the properties
  the constructors assign; a property a constructor does not assign is \<open>None\<close>.
\<close>

record GoogleDriveError =
  err_name :: string
  err_message :: string
  err_code :: "string option"
  err_statusCode :: "nat option"
  err_fileName :: "string option"
  err_fileId :: "string option"
  err_cause :: "js_value option"

definition FileUploadError :: "string \<Rightarrow> string option \<Rightarrow> js_value option \<Rightarrow> GoogleDriveError" where
  "FileUploadError message fileName cause =
     \<lparr>err_name = ''FileUploadError'',
      err_message = ''File upload failed: '' @ message,
      err_code = Some ''FILE_UPLOAD_ERROR'',
      err_statusCode = None,
      err_fileName = fileName,
      err_fileId = None,
      err_cause = cause\<rparr>"

definition FileDownloadError :: "string \<Rightarrow> string option \<Rightarrow> js_value option \<Rightarrow> GoogleDriveError" where
  "FileDownloadError message fileId cause =
     \<lparr>err_name = ''FileDownloadError'',
      err_message = ''File download failed: '' @ message,
      err_code = Some ''FILE_DOWNLOAD_ERROR'',
      err_statusCode = None,
      err_fileName = None,
      err_fileId = fileId,
      err_cause = cause\<rparr>"

definition AuthenticationError :: "string \<Rightarrow> js_value option \<Rightarrow> GoogleDriveError" where
  "AuthenticationError message cause =
     \<lparr>err_name = ''AuthenticationError'',
      err_message = ''Authentication failed: '' @ message,
      err_code = Some ''AUTHENTICATION_ERROR'',
      err_statusCode = Some 401,
      err_fileName = None,
      err_fileId = None,
      err_cause = cause\<rparr>"

definition ConfigurationError :: "string \<Rightarrow> GoogleDriveError" where
  "ConfigurationError message =
     \<lparr>err_name = ''ConfigurationError'',
      err_message = ''Configuration error: '' @ message,
      err_code = Some ''CONFIGURATION_ERROR'',
      err_statusCode = Some 500,
      err_fileName = None,
      err_fileId = None,
      err_cause = None\<rparr>"

text \<open>
  The two expressions every catch block of the service repeats:
  \<open>error instanceof Error ? error.message : fallback\<close> and
  \<open>error instanceof Error ? error : undefined\<close>.
\<close>

definition message_or :: "js_value \<Rightarrow> string \<Rightarrow> string" where
  "message_or error fallback = (if instanceof_Error error then message_of error else fallback)"

definition Error_or_undefined :: "js_value \<Rightarrow> js_value option" where
  "Error_or_undefined error = (if instanceof_Error error then Some error else None)"

section \<open>The client library and the remote service\<close>

text \<open>
  The \<open>googleapis\<close> objects the service builds. An \<open>OAuth2\<close> client is a mutable object
  (\<open>setCredentials\<close> writes to it), so clients live in a store and are referred to by
  address; a \<open>Drive\<close> handle is the value \<open>google.drive({version, auth})\<close> returns and
  holds the address of its client.
\<close>

record Credentials =
  refresh_token :: "string option"
  access_token :: "string option"

record OAuth2Client =
  auth_clientId :: string
  auth_clientSecret :: string
  auth_redirectUri :: string
  auth_credentials :: Credentials

record Drive =
  version :: string
  auth :: nat

text \<open>The arguments of the three remote operations, as the service passes them.\<close>

record create_requestBody =
  body_name :: string
  body_parents :: "string list option"

record create_media =
  media_mimeType :: js_value
  media_body :: readable

record files_create_params =
  requestBody :: create_requestBody
  media :: create_media
  create_fields :: string

record files_get_params =
  get_fileId :: string
  get_alt :: "string option"
  get_fields :: "string option"
  get_responseType :: "string option"

datatype remote_call =
    FilesCreate Drive files_create_params
  | FilesGet Drive files_get_params
  | AboutGet Drive string

text \<open>
  What lies outside the repository: the outcome of each remote operation, for the client
  it is issued through and its arguments, either a rejection (\<open>Inl\<close>, any value) or the
  \<open>data\<close> of the response (\<open>Inr\<close>); and what the library's \<open>google.drive\<close> factory throws,
  if it throws. \<open>files.get\<close> has two call shapes, told apart by \<open>responseType: 'stream'\<close>.
  Response data has the type the service casts it to (\<open>FileMetadata\<close>, \<open>Readable\<close>).
\<close>

record googleapis =
  files_create :: "OAuth2Client option \<Rightarrow> files_create_params \<Rightarrow> js_value + FileMetadata"
  files_get_stream :: "OAuth2Client option \<Rightarrow> files_get_params \<Rightarrow> js_value + readable"
  files_get :: "OAuth2Client option \<Rightarrow> files_get_params \<Rightarrow> js_value + FileMetadata"
  about_get :: "OAuth2Client option \<Rightarrow> string \<Rightarrow> js_value + unit"
  drive_throws :: "js_value option"

text \<open>
  The run-time state: the store of \<open>OAuth2\<close> clients with its allocation limit, and the
  remote calls issued so far, oldest first. The service object adds its two fields,
  \<open>this.options\<close> and \<open>this.drive\<close>. The \<open>Logger\<close> calls of the source write to the
  framework's log only and are not part of the model.
\<close>

record runtime =
  heap :: "nat \<Rightarrow> OAuth2Client option"
  lim :: nat
  calls :: "remote_call list"

record state = runtime +
  this_options :: GoogleDriveModuleOptions
  this_drive :: Drive

text \<open>\<open>new google.auth.OAuth2(clientId, clientSecret, redirectUri)\<close>: a new client with empty credentials.\<close>

definition OAuth2_new ::
  "string \<Rightarrow> string \<Rightarrow> string \<Rightarrow> 'a runtime_scheme \<Rightarrow> nat \<times> 'a runtime_scheme" where
  "OAuth2_new cid secret uri r =
     (lim r,
      r\<lparr>heap := (heap r)(lim r \<mapsto>
             \<lparr>auth_clientId = cid, auth_clientSecret = secret, auth_redirectUri = uri,
              auth_credentials = \<lparr>refresh_token = None, access_token = None\<rparr>\<rparr>),
        lim := Suc (lim r)\<rparr>)"

definition setCredentials :: "nat \<Rightarrow> Credentials \<Rightarrow> 'a runtime_scheme \<Rightarrow> 'a runtime_scheme" where
  "setCredentials a c r =
     r\<lparr>heap := (heap r)(a := map_option (\<lambda>client. client\<lparr>auth_credentials := c\<rparr>) (heap r a))\<rparr>"

definition google_drive :: "googleapis \<Rightarrow> string \<Rightarrow> nat \<Rightarrow> js_value + Drive" where
  "google_drive api v a =
     (case drive_throws api of
        Some e \<Rightarrow> Inl e
      | None \<Rightarrow> Inr \<lparr>version = v, auth = a\<rparr>)"

text \<open>Issuing a remote call appends it to the record of calls.\<close>

definition issue :: "remote_call \<Rightarrow> 'a runtime_scheme \<Rightarrow> 'a runtime_scheme" where
  "issue c r = r\<lparr>calls := calls r @ [c]\<rparr>"

section \<open>The service (\<open>services/google-drive.service.ts\<close>)\<close>

text \<open>An optional string as the JavaScript value tested by \<open>||\<close>, \<open>!\<close> and \<open>if\<close>.\<close>

definition optional_string :: "string option \<Rightarrow> js_value" where
  "optional_string x = (case x of None \<Rightarrow> JsUndefined | Some s \<Rightarrow> JsString s)"

text \<open>
  The constructor stores the options and runs \<open>initializeDrive\<close>, which either assigns
  \<open>this.drive\<close> or throws a configuration error; a service object exists only in the
  first case.
\<close>

definition initializeDrive :: "googleapis \<Rightarrow> GoogleDriveModuleOptions \<Rightarrow> runtime \<Rightarrow> GoogleDriveError + state" where
  "initializeDrive api opts r0 =
     (let (a, r1) = OAuth2_new (clientId opts) (clientSecret opts) (redirectUri opts) r0;
          r2 = (if truthy (optional_string (refreshToken opts))
                then setCredentials a
                       \<lparr>refresh_token = refreshToken opts, access_token = accessToken opts\<rparr> r1
                else r1)
      in case google_drive api DRIVE_API_VERSION a of
           Inr d \<Rightarrow>
             Inr \<lparr>heap = heap r2, lim = lim r2, calls = calls r2,
                  this_options = opts, this_drive = d\<rparr>
         | Inl error \<Rightarrow>
             Inl (ConfigurationError (message_or error ''Unknown initialization error'')))"

text \<open>\<open>fileStream: Readable | Buffer\<close>.\<close>

datatype file_content = Buffer buffer | Stream readable

text \<open>\<open>{...response.data, downloadUrl: `https://drive.google.com/file/d/${response.data.id}/view`}\<close>\<close>

definition with_downloadUrl :: "FileMetadata \<Rightarrow> UploadResult" where
  "with_downloadUrl d =
     \<lparr>file_id = file_id d, file_name = file_name d, file_mimeType = file_mimeType d,
      file_size = file_size d, file_parents = file_parents d,
      file_createdTime = file_createdTime d, file_modifiedTime = file_modifiedTime d,
      downloadUrl = Some (''https://drive.google.com/file/d/'' @ file_id d @ ''/view'')\<rparr>"

text \<open>\<open>!fileId || fileId.trim().length === 0\<close>\<close>

definition fileId_missing :: "string \<Rightarrow> bool" where
  "fileId_missing fileId \<longleftrightarrow> \<not> truthy (JsString fileId) \<or> length (trim fileId) = 0"

definition uploadFile ::
  "googleapis \<Rightarrow> file_content \<Rightarrow> UploadFileOptions \<Rightarrow> state \<Rightarrow> (GoogleDriveError + UploadResult) \<times> state" where
  "uploadFile api fileStream options s =
     (if \<not> validateFileName (name options) then
        (Inl (FileUploadError ''Invalid file name'' (Some (name options)) None), s)
      else
        let stream = (case fileStream of Buffer b \<Rightarrow> bufferToStream b | Stream r \<Rightarrow> r);
            given = optional_string (mimeType options);
            mimeType = (if truthy given then given else getMimeTypeFromExtension (name options));
            media = \<lparr>media_mimeType = mimeType, media_body = stream\<rparr>;
            fileMetadata = \<lparr>body_name = name options, body_parents = parents options\<rparr>;
            params = \<lparr>requestBody = fileMetadata, media = media, create_fields = DEFAULT_FILE_FIELDS\<rparr>;
            s1 = issue (FilesCreate (this_drive s) params) s
        in case files_create api (heap s1 (auth (this_drive s1))) params of
             Inr data \<Rightarrow> (Inr (with_downloadUrl data), s1)
           | Inl error \<Rightarrow>
               (Inl (FileUploadError (message_or error ''Unknown upload error'')
                       (Some (name options)) (Error_or_undefined error)), s1))"

text \<open>The catch block of \<open>downloadFile\<close>: the error it throws for what the remote call rejected with.\<close>

definition downloadFile_catch :: "string \<Rightarrow> js_value \<Rightarrow> GoogleDriveError" where
  "downloadFile_catch fileId error =
     (let message = message_or error ''Unknown download error'' in
      if truthy error \<and> typeof_object error \<and> code_in error then
        (if code_of error = JsNumber 404 then
           FileDownloadError ''File not found'' (Some fileId) (Error_or_undefined error)
         else if code_of error = JsNumber 403 then
           AuthenticationError ''Access denied'' (Error_or_undefined error)
         else
           FileDownloadError message (Some fileId) (Error_or_undefined error))
      else
        FileDownloadError message (Some fileId) (Error_or_undefined error))"

definition downloadFile ::
  "googleapis \<Rightarrow> string \<Rightarrow> state \<Rightarrow> (GoogleDriveError + readable) \<times> state" where
  "downloadFile api fileId s =
     (if fileId_missing fileId then
        (Inl (FileDownloadError ''File ID is required'' (Some fileId) None), s)
      else
        let params = \<lparr>get_fileId = fileId, get_alt = Some ''media'', get_fields = None,
                      get_responseType = Some ''stream''\<rparr>;
            s1 = issue (FilesGet (this_drive s) params) s
        in case files_get_stream api (heap s1 (auth (this_drive s1))) params of
             Inr data \<Rightarrow> (Inr data, s1)
           | Inl error \<Rightarrow> (Inl (downloadFile_catch fileId error), s1))"

definition getFileMetadata ::
  "googleapis \<Rightarrow> string \<Rightarrow> state \<Rightarrow> (GoogleDriveError + FileMetadata) \<times> state" where
  "getFileMetadata api fileId s =
     (if fileId_missing fileId then
        (Inl (FileDownloadError ''File ID is required'' (Some fileId) None), s)
      else
        let params = \<lparr>get_fileId = fileId, get_alt = None, get_fields = Some DEFAULT_FILE_FIELDS,
                      get_responseType = None\<rparr>;
            s1 = issue (FilesGet (this_drive s) params) s
        in case files_get api (heap s1 (auth (this_drive s1))) params of
             Inr data \<Rightarrow> (Inr data, s1)
           | Inl error \<Rightarrow>
               (Inl (FileDownloadError (message_or error ''Unknown error'')
                       (Some fileId) (Error_or_undefined error)), s1))"

definition testConnection :: "googleapis \<Rightarrow> state \<Rightarrow> (GoogleDriveError + bool) \<times> state" where
  "testConnection api s =
     (let s1 = issue (AboutGet (this_drive s) ''user'') s
      in case about_get api (heap s1 (auth (this_drive s1))) ''user'' of
           Inr _ \<Rightarrow> (Inr True, s1)
         | Inl error \<Rightarrow> (Inr False, s1))"

subsection \<open>Operations on a user's own drive\<close>

definition createUserDriveInstance ::
  "googleapis \<Rightarrow> UserGoogleDriveCredentials \<Rightarrow> state \<Rightarrow> (js_value + Drive) \<times> state" where
  "createUserDriveInstance api creds s =
     (let (a, s1) = OAuth2_new (clientId (this_options s)) (clientSecret (this_options s))
                      (redirectUri (this_options s)) s;
          s2 = setCredentials a
                 \<lparr>refresh_token = user_refreshToken creds,
                  access_token = Some (user_accessToken creds)\<rparr> s1
      in (google_drive api DRIVE_API_VERSION a, s2))"

definition uploadFileToUserDrive ::
  "googleapis \<Rightarrow> file_content \<Rightarrow> UploadFileOptions \<Rightarrow> UserDriveOptions \<Rightarrow> state
     \<Rightarrow> (GoogleDriveError + UploadResult) \<times> state" where
  "uploadFileToUserDrive api fileStream options userOptions s =
     (if \<not> validateFileName (name options) then
        (Inl (FileUploadError ''Invalid file name'' (Some (name options)) None), s)
      else
        let (created, s1) = createUserDriveInstance api (credentials userOptions) s
        in case created of
             Inl error \<Rightarrow>
               (Inl (FileUploadError (message_or error ''Unknown upload error'')
                       (Some (name options)) (Error_or_undefined error)), s1)
           | Inr userDrive \<Rightarrow>
               let stream = (case fileStream of Buffer b \<Rightarrow> bufferToStream b | Stream r \<Rightarrow> r);
                   given = optional_string (mimeType options);
                   mimeType = (if truthy given then given
                               else getMimeTypeFromExtension (name options));
                   media = \<lparr>media_mimeType = mimeType, media_body = stream\<rparr>;
                   fileMetadata = \<lparr>body_name = name options, body_parents = parents options\<rparr>;
                   params = \<lparr>requestBody = fileMetadata, media = media,
                             create_fields = DEFAULT_FILE_FIELDS\<rparr>;
                   s2 = issue (FilesCreate userDrive params) s1
               in case files_create api (heap s2 (auth userDrive)) params of
                    Inr data \<Rightarrow> (Inr (with_downloadUrl data), s2)
                  | Inl error \<Rightarrow>
                      (Inl (FileUploadError (message_or error ''Unknown upload error'')
                              (Some (name options)) (Error_or_undefined error)), s2))"

definition downloadFileFromUserDrive_catch :: "string \<Rightarrow> js_value \<Rightarrow> GoogleDriveError" where
  "downloadFileFromUserDrive_catch fileId error =
     (let message = message_or error ''Unknown download error'' in
      if truthy error \<and> typeof_object error \<and> code_in error then
        (if code_of error = JsNumber 404 then
           FileDownloadError ''File not found in user drive'' (Some fileId) (Error_or_undefined error)
         else if code_of error = JsNumber 403 then
           AuthenticationError ''Access denied to user drive'' (Error_or_undefined error)
         else
           FileDownloadError message (Some fileId) (Error_or_undefined error))
      else
        FileDownloadError message (Some fileId) (Error_or_undefined error))"

definition downloadFileFromUserDrive ::
  "googleapis \<Rightarrow> string \<Rightarrow> UserDriveOptions \<Rightarrow> state \<Rightarrow> (GoogleDriveError + readable) \<times> state" where
  "downloadFileFromUserDrive api fileId userOptions s =
     (if fileId_missing fileId then
        (Inl (FileDownloadError ''File ID is required'' (Some fileId) None), s)
      else
        let (created, s1) = createUserDriveInstance api (credentials userOptions) s
        in case created of
             Inl error \<Rightarrow> (Inl (downloadFileFromUserDrive_catch fileId error), s1)
           | Inr userDrive \<Rightarrow>
               let params = \<lparr>get_fileId = fileId, get_alt = Some ''media'', get_fields = None,
                             get_responseType = Some ''stream''\<rparr>;
                   s2 = issue (FilesGet userDrive params) s1
               in case files_get_stream api (heap s2 (auth userDrive)) params of
                    Inr data \<Rightarrow> (Inr data, s2)
                  | Inl error \<Rightarrow> (Inl (downloadFileFromUserDrive_catch fileId error), s2))"

definition getFileMetadataFromUserDrive ::
  "googleapis \<Rightarrow> string \<Rightarrow> UserDriveOptions \<Rightarrow> state \<Rightarrow> (GoogleDriveError + FileMetadata) \<times> state" where
  "getFileMetadataFromUserDrive api fileId userOptions s =
     (if fileId_missing fileId then
        (Inl (FileDownloadError ''File ID is required'' (Some fileId) None), s)
      else
        let (created, s1) = createUserDriveInstance api (credentials userOptions) s
        in case created of
             Inl error \<Rightarrow>
               (Inl (FileDownloadError (message_or error ''Unknown error'')
                       (Some fileId) (Error_or_undefined error)), s1)
           | Inr userDrive \<Rightarrow>
               let params = \<lparr>get_fileId = fileId, get_alt = None,
                             get_fields = Some DEFAULT_FILE_FIELDS, get_responseType = None\<rparr>;
                   s2 = issue (FilesGet userDrive params) s1
               in case files_get api (heap s2 (auth userDrive)) params of
                    Inr data \<Rightarrow> (Inr data, s2)
                  | Inl error \<Rightarrow>
                      (Inl (FileDownloadError (message_or error ''Unknown error'')
                              (Some fileId) (Error_or_undefined error)), s2))"

definition testUserDriveConnection ::
  "googleapis \<Rightarrow> UserDriveOptions \<Rightarrow> state \<Rightarrow> (GoogleDriveError + bool) \<times> state" where
  "testUserDriveConnection api userOptions s =
     (let (created, s1) = createUserDriveInstance api (credentials userOptions) s
      in case created of
           Inl error \<Rightarrow> (Inr False, s1)
         | Inr userDrive \<Rightarrow>
             let s2 = issue (AboutGet userDrive ''user'') s1
             in case about_get api (heap s2 (auth userDrive)) ''user'' of
                  Inr _ \<Rightarrow> (Inr True, s2)
                | Inl error \<Rightarrow> (Inr False, s2))"

section \<open>Notions used to state the properties\<close>

text \<open>
  A rejection carries the numeric code \<open>n\<close> when it is an object whose property \<open>code\<close> is
  the number \<open>n\<close>.
\<close>

fun carries_code :: "js_value \<Rightarrow> real \<Rightarrow> bool" where
  "carries_code (JsObject _ _ (Some (JsNumber c))) n = (c = n)"
| "carries_code _ _ = False"

text \<open>The handle a remote call was issued through.\<close>

fun call_drive :: "remote_call \<Rightarrow> Drive" where
  "call_drive (FilesCreate d _) = d"
| "call_drive (FilesGet d _) = d"
| "call_drive (AboutGet d _) = d"

text \<open>The MIME types sent with the \<open>files.create\<close> calls of a record of calls, in order.\<close>

fun create_mimeTypes :: "remote_call list \<Rightarrow> js_value list" where
  "create_mimeTypes [] = []"
| "create_mimeTypes (FilesCreate _ p # cs) = media_mimeType (media p) # create_mimeTypes cs"
| "create_mimeTypes (_ # cs) = create_mimeTypes cs"

text \<open>The arguments \<open>downloadFile\<close> and \<open>getFileMetadata\<close> pass to \<open>files.get\<close>.\<close>

definition download_params :: "string \<Rightarrow> files_get_params" where
  "download_params fileId =
     \<lparr>get_fileId = fileId, get_alt = Some ''media'', get_fields = None,
      get_responseType = Some ''stream''\<rparr>"

definition metadata_params :: "string \<Rightarrow> files_get_params" where
  "metadata_params fileId =
     \<lparr>get_fileId = fileId, get_alt = None, get_fields = Some DEFAULT_FILE_FIELDS,
      get_responseType = None\<rparr>"

text \<open>
  The client a per-user operation is expected to build: the module's client id, secret and
  redirect URI, with the caller's tokens as credentials.
\<close>

definition user_client :: "GoogleDriveModuleOptions \<Rightarrow> UserGoogleDriveCredentials \<Rightarrow> OAuth2Client" where
  "user_client opts creds =
     \<lparr>auth_clientId = clientId opts, auth_clientSecret = clientSecret opts,
      auth_redirectUri = redirectUri opts,
      auth_credentials = \<lparr>refresh_token = user_refreshToken creds,
                          access_token = Some (user_accessToken creds)\<rparr>\<rparr>"

text \<open>
  Concrete inputs: the options of the repository's service test, the service constructed
  from them in an empty run-time state, a remote service that rejects every call with a
  given value, and one that resolves every call.
\<close>

definition mockOptions :: GoogleDriveModuleOptions where
  "mockOptions =
     \<lparr>clientId = ''test-client-id'', clientSecret = ''test-client-secret'',
      redirectUri = ''http://localhost:3000/callback'',
      refreshToken = Some ''test-refresh-token'', accessToken = None, scope = None\<rparr>"

definition empty_runtime :: runtime where
  "empty_runtime = \<lparr>heap = (\<lambda>_. None), lim = 0, calls = []\<rparr>"

definition mock_service :: state where
  "mock_service =
     \<lparr>heap = (\<lambda>_. None)(0 \<mapsto>
        \<lparr>auth_clientId = ''test-client-id'', auth_clientSecret = ''test-client-secret'',
         auth_redirectUri = ''http://localhost:3000/callback'',
         auth_credentials = \<lparr>refresh_token = Some ''test-refresh-token'', access_token = None\<rparr>\<rparr>),
      lim = 1, calls = [],
      this_options = mockOptions, this_drive = \<lparr>version = ''v3'', auth = 0\<rparr>\<rparr>"

definition rejecting :: "js_value \<Rightarrow> googleapis" where
  "rejecting e =
     \<lparr>files_create = (\<lambda>_ _. Inl e), files_get_stream = (\<lambda>_ _. Inl e),
      files_get = (\<lambda>_ _. Inl e), about_get = (\<lambda>_ _. Inl e), drive_throws = None\<rparr>"

definition resolving :: "FileMetadata \<Rightarrow> readable \<Rightarrow> googleapis" where
  "resolving d r =
     \<lparr>files_create = (\<lambda>_ _. Inr d), files_get_stream = (\<lambda>_ _. Inr r),
      files_get = (\<lambda>_ _. Inr d), about_get = (\<lambda>_ _. Inr ()), drive_throws = None\<rparr>"

definition mockUser :: UserDriveOptions where
  "mockUser =
     \<lparr>credentials = \<lparr>user_accessToken = ''user-access-token'', user_refreshToken = None,
                      user_expiresAt = None\<rparr>\<rparr>"

text \<open>
  Two rejections: the plain object of the repository's 404 test
  (\<open>{ code: 404, message: 'File not found' }\<close>, not an \<open>Error\<close>), and an \<open>Error\<close> instance
  with the code 403, as the client library raises them.
\<close>

definition notFound_rejection :: js_value where
  "notFound_rejection = JsObject False ''File not found'' (Some (JsNumber 404))"

definition forbidden_error :: js_value where
  "forbidden_error =
     JsObject True ''The user does not have sufficient permissions'' (Some (JsNumber 403))"

text \<open>The plain object of the repository's 403 test: \<open>{ code: 403, message: 'Access denied' }\<close>.\<close>

definition forbidden_rejection :: js_value where
  "forbidden_rejection = JsObject False ''Access denied'' (Some (JsNumber 403))"

text \<open>The response data of the repository's upload test, and a remote service resolving with it.\<close>

definition mockFileResponse :: FileMetadata where
  "mockFileResponse =
     \<lparr>file_id = ''test-file-id'', file_name = ''test-file.txt'', file_mimeType = ''text/plain'',
      file_size = ''1024'', file_parents = None,
      file_createdTime = ''2023-01-01T00:00:00.000Z'',
      file_modifiedTime = ''2023-01-01T00:00:00.000Z''\<rparr>"

definition mock_api :: googleapis where
  "mock_api = resolving mockFileResponse (Readable [])"

definition invalid_upload :: UploadFileOptions where
  "invalid_upload = \<lparr>name = ''invalid<file>name.txt'', parents = None, mimeType = None\<rparr>"

text \<open>A response whose file id is \<open>X\<close>, and the upload of the scenario: \<open>report.pdf\<close>, no MIME type.\<close>

definition responseX :: FileMetadata where
  "responseX =
     \<lparr>file_id = ''X'', file_name = ''report.pdf'', file_mimeType = ''application/pdf'',
      file_size = ''12'', file_parents = None,
      file_createdTime = ''2023-01-01T00:00:00.000Z'',
      file_modifiedTime = ''2023-01-01T00:00:00.000Z''\<rparr>"

definition report_upload :: UploadFileOptions where
  "report_upload = \<lparr>name = ''report.pdf'', parents = None, mimeType = None\<rparr>"

text \<open>The rejection of the repository's connection test: \<open>new Error('Connection failed')\<close>.\<close>

definition connection_failed :: js_value where
  "connection_failed = JsObject True ''Connection failed'' None"

text \<open>
  The service object is unchanged between two states when its two fields are the same
  and the client its long-lived handle refers to is the same.
\<close>

definition service_unchanged :: "state \<Rightarrow> state \<Rightarrow> bool" where
  "service_unchanged s s' \<longleftrightarrow>
     this_options s' = this_options s \<and> this_drive s' = this_drive s
     \<and> heap s' (auth (this_drive s)) = heap s (auth (this_drive s))"

text \<open>
  A call-scoped client was built between two states when the store has grown by exactly
  one client, at the next free address, holding the caller's credentials, and every
  remote call issued in between (at most one) went through a handle on that client.
\<close>

definition built_client :: "UserDriveOptions \<Rightarrow> state \<Rightarrow> state \<Rightarrow> bool" where
  "built_client userOptions s s' \<longleftrightarrow>
     heap s' = (heap s)(lim s \<mapsto> user_client (this_options s) (credentials userOptions))
     \<and> lim s' = Suc (lim s)
     \<and> (\<exists>new. calls s' = calls s @ new \<and> length new \<le> 1
           \<and> list_all (\<lambda>c. call_drive c = \<lparr>version = DRIVE_API_VERSION, auth = lim s\<rparr>) new)"

section \<open>Properties of the file utilities\<close>

lemma trimEnd_empty_iff: "trimEnd s = [] \<longleftrightarrow> (\<forall>c \<in> set s. isWhiteSpace c)"
  by (simp add: trimEnd_def)

lemma trim_empty_iff: "trim s = [] \<longleftrightarrow> (\<forall>c \<in> set s. isWhiteSpace c)"
proof
  assume "trim s = []"
  then have rest: "\<forall>c \<in> set (dropWhile isWhiteSpace s). isWhiteSpace c"
    by (simp add: trim_def trimStart_def trimEnd_empty_iff)
  show "\<forall>c \<in> set s. isWhiteSpace c"
  proof (cases "dropWhile isWhiteSpace s")
    case Nil
    then show ?thesis by simp
  next
    case (Cons x xs)
    then have "\<not> isWhiteSpace x" by (metis hd_dropWhile list.sel(1) list.distinct(1))
    moreover from Cons rest have "isWhiteSpace x" by simp
    ultimately show ?thesis by simp
  qed
next
  assume "\<forall>c \<in> set s. isWhiteSpace c"
  then show "trim s = []"
    by (auto simp: trim_def trimStart_def trimEnd_def dest: set_dropWhileD)
qed

text \<open>
  C5. A file name that contains one of the characters \<open>< > : " / \ | ? *\<close>, or is empty,
  or consists of white space only, is rejected by \<open>validateFileName\<close>; every other name
  is accepted.
\<close>

theorem validateFileName_characterisation:
  "((\<exists>c \<in> set fileName. c \<in> invalidChars) \<or> fileName = [] \<or> (\<forall>c \<in> set fileName. isWhiteSpace c)
      \<longrightarrow> validateFileName fileName = False)
   \<and> (\<not> ((\<exists>c \<in> set fileName. c \<in> invalidChars) \<or> fileName = [] \<or> (\<forall>c \<in> set fileName. isWhiteSpace c))
      \<longrightarrow> validateFileName fileName = True)"
  by (auto simp: validateFileName_def invalidChars_test_def list_ex_iff trim_empty_iff)

theorem validateFileName_characterisation_witness:
  "validateFileName ''file<name>.txt'' = False
   \<and> validateFileName [] = False
   \<and> validateFileName ''   '' = False
   \<and> validateFileName ''image (1).jpg'' = True"
  using validateFileName_characterisation [of "''file<name>.txt''"]
        validateFileName_characterisation [of "[]"]
        validateFileName_characterisation [of "''   ''"]
        validateFileName_characterisation [of "''image (1).jpg''"]
  by (simp add: invalidChars_def isWhiteSpace_def)

subsection \<open>The extension a name is looked up by\<close>

text \<open>
  For a name with a dot, the text after the last dot decides the result, in any letter
  case: a key of the table gives its MIME type, an empty extension the generic type, and
  so does an extension that is neither a key nor the name of an inherited property.
  A name without a dot is looked up as a whole.
\<close>

lemma split_not_Nil: "split sep s \<noteq> []"
  by (induction s) (auto split: list.split)

lemma length_split: "length (split sep s) = Suc (length (filter (\<lambda>c. c = sep) s))"
  by (induction s) (auto split: list.split simp: split_not_Nil)

lemma split_without_separator: "sep \<notin> set s \<Longrightarrow> split sep s = [s]"
  by (induction s) (auto split: list.split)

lemma last_split: "sep \<notin> set ext \<Longrightarrow> last (split sep (base @ sep # ext)) = ext"
proof (induction base)
  case Nil
  then show ?case by (simp add: split_without_separator)
next
  case (Cons c base)
  let ?rest = "base @ sep # ext"
  have "length (split sep ?rest) \<ge> 2"
    by (simp add: length_split)
  then obtain piece p pieces where "split sep ?rest = piece # p # pieces"
    by (cases "split sep ?rest"; cases "tl (split sep ?rest)") auto
  with Cons show ?case by auto
qed

lemma mimeTypes_values_truthy: "map_of mimeTypes key = Some v \<Longrightarrow> v \<noteq> []"
  by (auto simp: mimeTypes_def split: if_splits)

lemma toLowerCase_Nil_iff: "toLowerCase s = [] \<longleftrightarrow> s = []"
  by (simp add: toLowerCase_def)

lemma getMimeTypeFromExtension_extension:
  assumes "CHR ''.'' \<notin> set ext"
  shows "getMimeTypeFromExtension (base @ CHR ''.'' # ext) =
     (if ext = [] then JsString ''application/octet-stream''
      else if truthy (mimeTypes_get (toLowerCase ext)) then mimeTypes_get (toLowerCase ext)
      else JsString ''application/octet-stream'')"
  using assms
  by (simp add: getMimeTypeFromExtension_def pop_def split_not_Nil last_split Let_def
        toLowerCase_Nil_iff)

lemma getMimeTypeFromExtension_known:
  assumes "CHR ''.'' \<notin> set ext" and "map_of mimeTypes (toLowerCase ext) = Some v"
  shows "getMimeTypeFromExtension (base @ CHR ''.'' # ext) = JsString v"
proof -
  from assms(2) have "v \<noteq> []" by (rule mimeTypes_values_truthy)
  moreover from assms(2) have "ext \<noteq> []"
    by (auto simp: toLowerCase_def mimeTypes_def)
  ultimately show ?thesis
    using assms by (simp add: getMimeTypeFromExtension_extension mimeTypes_get_def)
qed

lemma getMimeTypeFromExtension_unknown:
  assumes "CHR ''.'' \<notin> set ext" and "map_of mimeTypes (toLowerCase ext) = None"
    and "map_of Object_prototype (toLowerCase ext) = None"
  shows "getMimeTypeFromExtension (base @ CHR ''.'' # ext) = JsString ''application/octet-stream''"
  using assms by (simp add: getMimeTypeFromExtension_extension mimeTypes_get_def)

lemma getMimeTypeFromExtension_no_dot:
  assumes "CHR ''.'' \<notin> set fileName"
  shows "getMimeTypeFromExtension fileName =
     (if fileName = [] then JsString ''application/octet-stream''
      else if truthy (mimeTypes_get (toLowerCase fileName)) then mimeTypes_get (toLowerCase fileName)
      else JsString ''application/octet-stream'')"
  using assms
  by (simp add: getMimeTypeFromExtension_def pop_def split_without_separator Let_def
        toLowerCase_Nil_iff)

subsection \<open>Names without an extension\<close>

text \<open>
  C6. \<open>getMimeTypeFromExtension\<close> takes as the extension the last piece of the name split
  at the dots, which for a name without a dot is the whole name. The name \<open>pdf\<close> has no
  dot and so no extension, yet it is given the MIME type of the key \<open>pdf\<close> and not
  \<open>application/octet-stream\<close>. The table is read as a property of an object literal, so
  the extension \<open>constructor\<close>, which is no key of the table, yields the inherited
  \<open>Object\<close> constructor and not \<open>application/octet-stream\<close> either.
\<close>

theorem getMimeTypeFromExtension_without_extension:
  "CHR ''.'' \<notin> set ''pdf''
   \<and> getMimeTypeFromExtension ''pdf'' = JsString ''application/pdf''
   \<and> getMimeTypeFromExtension ''pdf'' \<noteq> JsString ''application/octet-stream''
   \<and> map_of mimeTypes ''constructor'' = None
   \<and> getMimeTypeFromExtension ''archive.constructor'' = JsFunction ''Object''
   \<and> getMimeTypeFromExtension ''archive.constructor'' \<noteq> JsString ''application/octet-stream''"
  by (simp add: getMimeTypeFromExtension_def pop_def toLowerCase_def upperCase_def
        lowerCase_def mimeTypes_get_def mimeTypes_def Object_prototype_def)

subsection \<open>Formatting a size\<close>

lemma digit_cases: "d < 10 \<Longrightarrow> d \<in> {0, 1, 2, 3, 4, 5, 6, 7, 8, 9 :: nat}"
  by auto

lemma digit_char_props:
  assumes "d < 10"
  shows "isDigit (digit_char d)" and "digit_value (digit_char d) = d"
  using digit_cases [OF assms]
  by (auto simp: isDigit_def digit_value_def digit_char_def)

lemma digit_char_not_point [simp]: "digit_char d \<noteq> CHR ''.''" "digit_char d \<noteq> CHR ''-''"
  using digit_cases [of "d mod 10"]
  by (auto simp: digit_char_def)

lemma digits_value_snoc: "digits_value (ds @ [c]) = 10 * digits_value ds + digit_value c"
  by (simp add: digits_value_def)

lemma show_nat_props:
  "show_nat n \<noteq> [] \<and> list_all isDigit (show_nat n) \<and> digits_value (show_nat n) = n"
proof (induction n rule: show_nat.induct)
  case (1 n)
  show ?case
  proof (cases "n < 10")
    case True
    then show ?thesis
      by (simp add: show_nat.simps [of n] digit_char_props digits_value_def)
  next
    case False
    with 1 show ?thesis
      by (simp add: show_nat.simps [of n] digit_char_props digits_value_snoc)
  qed
qed

lemma takeWhile_digits:
  assumes "list_all isDigit ds" and "rest = [] \<or> \<not> isDigit (hd rest)"
  shows "takeWhile isDigit (ds @ rest) = ds" and "dropWhile isDigit (ds @ rest) = rest"
proof -
  from assms(2) have "takeWhile isDigit rest = []" and "dropWhile isDigit rest = rest"
    by (cases rest; simp)+
  with assms(1) show "takeWhile isDigit (ds @ rest) = ds"
    and "dropWhile isDigit (ds @ rest) = rest"
    by (induction ds) simp_all
qed

lemma isDigit_simps [simp]: "\<not> isDigit CHR ''.''" "\<not> isDigit CHR ''-''" "\<not> isDigit CHR ''+''"
  "\<not> isDigit CHR ''N''" "\<not> isDigit CHR ''I''"
  by (simp_all add: isDigit_def)


text \<open>What \<open>toFixed(2)\<close> prints, \<open>parseFloat\<close> reads back.\<close>

lemma parseFloat_fixed:
  assumes "d1 < 10" and "d2 < 10"
  shows "parseFloat (show_nat a @ [CHR ''.'', digit_char d1, digit_char d2])
     = Some (Finite (real a + real (10 * d1 + d2) / 100))"
proof -
  let ?w = "show_nat a" and ?r = "[CHR ''.'', digit_char d1, digit_char d2]"
  note p = show_nat_props [of a]
  from p obtain c cs where w: "?w = c # cs" and c: "isDigit c"
    by (cases ?w) auto
  have tw: "takeWhile isDigit (?w @ ?r) = ?w" and dw: "dropWhile isDigit (?w @ ?r) = ?r"
    using p by (simp_all add: takeWhile_digits)
  have frac: "digits_value [digit_char d1, digit_char d2] = 10 * d1 + d2"
    using assms by (simp add: digits_value_def digit_char_props)
  have not_special: "?w @ ?r \<noteq> ''NaN''" "?w @ ?r \<noteq> ''Infinity''" "?w @ ?r \<noteq> ''-Infinity''"
    "hd (?w @ ?r) \<noteq> CHR ''-''"
    using c by (auto simp: w)
  have "parseFloat (?w @ ?r)
      = Some (Finite (1 * (real (digits_value ?w)
                           + real (digits_value [digit_char d1, digit_char d2]) / 10 ^ 2)))"
    using not_special p assms
    by (simp add: parseFloat_def Let_def tw dw digit_char_props)
  with p frac show ?thesis by simp
qed

lemma tens_and_units: "10 * (m mod 100 div 10) + m mod 10 = (m::nat) mod 100"
proof -
  have "m mod 100 mod 10 = m mod 10" by (simp add: mod_mod_cancel)
  moreover have "10 * (m mod 100 div 10) + m mod 100 mod 10 = m mod 100"
    by (rule mult_div_mod_eq)
  ultimately show ?thesis by simp
qed

lemma hundredths_split: "m = 100 * a + b \<Longrightarrow> real a + real b / 100 = real m / 100"
  by simp

text \<open>
  The chain \<open>parseFloat(x.toFixed(2))\<close> followed by the conversion to a string, for a
  number that is not negative: the nearest hundredth, ties upwards, printed without
  trailing zeros.
\<close>

lemma rounded_text:
  fixes q :: real
  assumes "0 \<le> q" and "q < 10 ^ 20"
  defines "m \<equiv> nat \<lfloor>q * 100 + 1 / 2\<rfloor>"
  shows "toFixed2 (Finite q)
           = Some (show_nat (m div 100) @ [CHR ''.'', digit_char (m mod 100 div 10), digit_char (m mod 10)])"
    and "parseFloat (show_nat (m div 100) @ [CHR ''.'', digit_char (m mod 100 div 10), digit_char (m mod 10)])
           = Some (Finite (real m / 100))"
    and "Number_toString (Finite (real m / 100)) = Some (show_hundredths m)"
proof -
  from assms(1,2) show "toFixed2 (Finite q)
      = Some (show_nat (m div 100) @ [CHR ''.'', digit_char (m mod 100 div 10), digit_char (m mod 10)])"
    by (simp add: m_def Let_def)
  have "parseFloat (show_nat (m div 100) @ [CHR ''.'', digit_char (m mod 100 div 10), digit_char (m mod 10)])
      = Some (Finite (real (m div 100) + real (10 * (m mod 100 div 10) + m mod 10) / 100))"
    by (rule parseFloat_fixed) simp_all
  moreover have "real (m div 100) + real (m mod 100) / 100 = real m / 100"
    by (rule hundredths_split) simp
  ultimately show "parseFloat (show_nat (m div 100)
        @ [CHR ''.'', digit_char (m mod 100 div 10), digit_char (m mod 10)])
      = Some (Finite (real m / 100))"
    by (simp only: tens_and_units)
  have "real m \<le> q * 100 + 1 / 2"
    using assms(1) unfolding m_def by (simp add: of_nat_nat)
  with assms(2) have "real m / 100 < 10 ^ 21"
    by simp
  then show "Number_toString (Finite (real m / 100)) = Some (show_hundredths m)"
    by simp
qed

lemma unit_index:
  assumes "0 < x"
  shows "Math_floor (js_divide (Math_log (Finite x)) (Math_log (Finite 1024)))
     = Finite (of_int \<lfloor>log 1024 x\<rfloor>)"
  using assms by (simp add: log_def)

lemma formatFileSize_positive:
  assumes "0 < x"
  defines "j \<equiv> \<lfloor>log 1024 x\<rfloor>"
  shows "formatFileSize (ANumber (Finite x))
     = Some (show_hundredths (nat \<lfloor>x / 1024 powr real_of_int j * 100 + 1 / 2\<rfloor>)
             @ '' '' @ sizes_at (Finite (of_int j)))"
proof -
  let ?q = "x / 1024 powr real_of_int j"
  have bounds: "1024 powr real_of_int j \<le> x" "x < 1024 powr real_of_int (j + 1)"
    using floor_log_eq_powr_iff [of x 1024 j] assms by simp_all
  have pos: "0 < (1024::real) powr real_of_int j" by simp
  from bounds(1) pos have q1: "1 \<le> ?q" by (simp add: field_simps)
  have "(1024::real) powr real_of_int (j + 1) = 1024 * 1024 powr real_of_int j"
    by (simp add: powr_add add.commute)
  with bounds(2) pos have q2: "?q < 1024" by (simp add: field_simps)
  have "(1024::real) < 10 ^ 20" by simp
  with q2 have "?q < 10 ^ 20" by (rule less_trans)
  moreover from q1 have "0 \<le> ?q" by linarith
  ultimately have range: "0 \<le> ?q" "?q < 10 ^ 20" by blast+
  note chain = rounded_text [OF range]
  have index: "Math_floor (js_divide (Math_log (Finite x)) (Math_log (Finite 1024)))
      = Finite (of_int j)"
    using assms(1) unfolding j_def by (rule unit_index)
  have quotient: "js_divide (Finite x) (Math_pow_1024 (Finite (of_int j))) = Finite ?q"
    by simp
  have nonzero: "(Finite x = Finite 0) = False"
    using assms(1) by simp
  show ?thesis
    by (simp only: formatFileSize_def Let_def string_or_number.case index quotient chain
          nonzero if_False option.case)
qed






lemma formatFileSize_of_string:
  "formatFileSize (AString s) = formatFileSize (ANumber (parseInt s))"
  by (simp add: formatFileSize_def)

lemma formatFileSize_not_a_size:
  "x < 0 \<Longrightarrow> formatFileSize (ANumber (Finite x)) = Some ''NaN undefined''"
  "formatFileSize (ANumber NaN) = Some ''NaN undefined''"
  "formatFileSize (ANumber PosInfinity) = Some ''NaN undefined''"
  "formatFileSize (ANumber NegInfinity) = Some ''NaN undefined''"
  by (simp_all add: formatFileSize_def parseFloat_def)

text \<open>
  The conversions are modelled on part of their arguments only (\<open>None\<close> elsewhere);
  \<open>formatFileSize\<close> stays within that part: it returns a string for every argument.
\<close>

lemma formatFileSize_total: "\<exists>text. formatFileSize bytes = Some text"
proof -
  have number: "\<exists>text. formatFileSize (ANumber n) = Some text" for n
  proof (cases n)
    case (Finite x)
    consider "x < 0" | "x = 0" | "0 < x" by linarith
    then show ?thesis
    proof cases
      case 1
      with Finite show ?thesis by (simp add: formatFileSize_not_a_size)
    next
      case 2
      with Finite show ?thesis by (simp add: formatFileSize_def)
    next
      case 3
      with Finite show ?thesis by (simp add: formatFileSize_positive)
    qed
  qed (simp_all add: formatFileSize_not_a_size)
  show ?thesis
    by (cases bytes) (simp_all only: formatFileSize_of_string number)
qed









section \<open>Properties of the service\<close>

lemma issue_simps [simp]:
  "heap (issue c s) = heap s" "lim (issue c s) = lim s" "calls (issue c s) = calls s @ [c]"
  by (simp_all add: issue_def)

lemma issue_state_simps [simp]:
  "this_options (issue c s) = this_options s" "this_drive (issue c s) = this_drive s"
  by (simp_all add: issue_def)

lemma fileId_missing_iff: "fileId_missing fileId \<longleftrightarrow> (\<forall>c \<in> set fileId. isWhiteSpace c)"
  by (auto simp: fileId_missing_def trim_empty_iff)

lemma carries_code_guard:
  "carries_code error n \<Longrightarrow> truthy error \<and> typeof_object error \<and> code_in error \<and> code_of error = JsNumber n"
  by (induction error n rule: carries_code.induct) auto

lemma guard_carries_code:
  "truthy error \<Longrightarrow> typeof_object error \<Longrightarrow> code_in error \<Longrightarrow> code_of error = JsNumber n \<Longrightarrow> carries_code error n"
  by (induction error n rule: carries_code.induct) auto

lemma downloadFile_catch_404:
  "carries_code error 404 \<Longrightarrow>
   downloadFile_catch fileId error = FileDownloadError ''File not found'' (Some fileId) (Error_or_undefined error)"
  by (drule carries_code_guard) (simp add: downloadFile_catch_def)

lemma downloadFile_catch_403:
  "carries_code error 403 \<Longrightarrow>
   downloadFile_catch fileId error = AuthenticationError ''Access denied'' (Error_or_undefined error)"
  by (drule carries_code_guard) (simp add: downloadFile_catch_def)

lemma downloadFile_catch_other:
  "\<not> carries_code error 404 \<Longrightarrow> \<not> carries_code error 403 \<Longrightarrow>
   downloadFile_catch fileId error =
     FileDownloadError (message_or error ''Unknown download error'') (Some fileId) (Error_or_undefined error)"
  by (auto simp: downloadFile_catch_def Let_def dest: guard_carries_code)

lemma downloadFile_rejected:
  "\<not> fileId_missing fileId \<Longrightarrow>
   files_get_stream api (heap s (auth (this_drive s))) (download_params fileId) = Inl error \<Longrightarrow>
   fst (downloadFile api fileId s) = Inl (downloadFile_catch fileId error)"
  by (simp add: downloadFile_def download_params_def Let_def)

text \<open>
  C1 (as amended). When \<open>downloadFile\<close> is called with a file id that is not empty and not
  white space only and the remote get rejects, the operation rejects: with a download
  error (message "File not found") when the rejection carries the code 404, with an
  authentication error when it carries the code 403, and with a generic download error
  carrying the rejection's message otherwise. The download errors carry the file id.
  The rejection is attached as the cause when it is an \<open>Error\<close> instance; a rejection that
  is not an \<open>Error\<close> instance leaves the cause undefined.
\<close>

theorem downloadFile_remote_rejection:
  assumes valid: "fileId \<noteq> [] \<and> \<not> (\<forall>c \<in> set fileId. isWhiteSpace c)"
    and rejects: "files_get_stream api (heap s (auth (this_drive s))) (download_params fileId) = Inl error"
  shows "\<exists>e. fst (downloadFile api fileId s) = Inl e
     \<and> (carries_code error 404 \<longrightarrow>
          err_name e = ''FileDownloadError'' \<and> err_code e = Some ''FILE_DOWNLOAD_ERROR''
          \<and> err_message e = ''File download failed: File not found'')
     \<and> (carries_code error 403 \<longrightarrow>
          err_name e = ''AuthenticationError'' \<and> err_code e = Some ''AUTHENTICATION_ERROR''
          \<and> err_fileId e = None)
     \<and> (\<not> carries_code error 404 \<and> \<not> carries_code error 403 \<longrightarrow>
          err_name e = ''FileDownloadError'' \<and> err_code e = Some ''FILE_DOWNLOAD_ERROR''
          \<and> err_message e = ''File download failed: '' @ message_or error ''Unknown download error'')
     \<and> (\<not> carries_code error 403 \<longrightarrow> err_fileId e = Some fileId)
     \<and> err_cause e = (if instanceof_Error error then Some error else None)"
proof -
  from valid have "\<not> fileId_missing fileId" by (simp add: fileId_missing_iff)
  from this rejects have res: "fst (downloadFile api fileId s) = Inl (downloadFile_catch fileId error)"
    by (rule downloadFile_rejected)
  consider (nf) "carries_code error 404" | (fb) "carries_code error 403"
    | (other) "\<not> carries_code error 404" "\<not> carries_code error 403"
    by blast
  then show ?thesis
  proof cases
    case nf
    then have "\<not> carries_code error 403"
      by (auto dest!: carries_code_guard)
    with nf res show ?thesis
      by (simp add: downloadFile_catch_404 FileDownloadError_def Error_or_undefined_def)
  next
    case fb
    then have "\<not> carries_code error 404"
      by (auto dest!: carries_code_guard)
    with fb res show ?thesis
      by (simp add: downloadFile_catch_403 AuthenticationError_def Error_or_undefined_def)
  next
    case other
    with res show ?thesis
      by (simp add: downloadFile_catch_other FileDownloadError_def Error_or_undefined_def)
  qed
qed

lemma mock_service_simps:
  "heap mock_service (auth (this_drive mock_service)) =
     Some \<lparr>auth_clientId = ''test-client-id'', auth_clientSecret = ''test-client-secret'',
         auth_redirectUri = ''http://localhost:3000/callback'',
         auth_credentials = \<lparr>refresh_token = Some ''test-refresh-token'', access_token = None\<rparr>\<rparr>"
  by (simp add: mock_service_def)

text \<open>
  The claim as first stated attaches the rejection as the cause in all cases. The
  rejection of the repository's own 404 test is a plain object: the download error it
  is turned into has no cause.
\<close>

theorem downloadFile_cause_counterexample:
  "\<not> fileId_missing ''non-existent-file''
   \<and> files_get_stream (rejecting notFound_rejection)
        (heap mock_service (auth (this_drive mock_service)))
        (download_params ''non-existent-file'') = Inl notFound_rejection
   \<and> fst (downloadFile (rejecting notFound_rejection) ''non-existent-file'' mock_service) =
        Inl (FileDownloadError ''File not found'' (Some ''non-existent-file'') None)
   \<and> err_cause (FileDownloadError ''File not found'' (Some ''non-existent-file'') None)
        \<noteq> Some notFound_rejection"
  by (simp add: fileId_missing_iff isWhiteSpace_def rejecting_def downloadFile_rejected
        download_params_def downloadFile_catch_def notFound_rejection_def
        Error_or_undefined_def FileDownloadError_def)

theorem downloadFile_remote_rejection_witness:
  "''forbidden-file'' \<noteq> []
   \<and> \<not> (\<forall>c \<in> set ''forbidden-file''. isWhiteSpace c)
   \<and> files_get_stream (rejecting forbidden_error)
        (heap mock_service (auth (this_drive mock_service)))
        (download_params ''forbidden-file'') = Inl forbidden_error
   \<and> carries_code forbidden_error 403
   \<and> (\<exists>e. fst (downloadFile (rejecting forbidden_error) ''forbidden-file'' mock_service) = Inl e
         \<and> err_name e = ''AuthenticationError''
         \<and> err_cause e = Some forbidden_error)"
proof -
  have valid: "''forbidden-file'' \<noteq> [] \<and> \<not> (\<forall>c \<in> set ''forbidden-file''. isWhiteSpace c)"
    by (simp add: isWhiteSpace_def)
  have rejects: "files_get_stream (rejecting forbidden_error)
        (heap mock_service (auth (this_drive mock_service)))
        (download_params ''forbidden-file'') = Inl forbidden_error"
    by (simp add: rejecting_def)
  have code: "carries_code forbidden_error 403" and inst: "instanceof_Error forbidden_error"
    by (simp_all add: forbidden_error_def)
  from downloadFile_remote_rejection [OF valid rejects] code inst valid rejects
  show ?thesis by auto
qed

lemma getFileMetadata_rejected:
  "\<not> fileId_missing fileId \<Longrightarrow>
   files_get api (heap s (auth (this_drive s))) (metadata_params fileId) = Inl error \<Longrightarrow>
   fst (getFileMetadata api fileId s) =
     Inl (FileDownloadError (message_or error ''Unknown error'') (Some fileId)
            (Error_or_undefined error))"
  by (simp add: getFileMetadata_def metadata_params_def Let_def)

text \<open>
  C2 (as amended). When \<open>getFileMetadata\<close> is called with a file id that is not empty and
  not white space only and the remote get rejects, the operation rejects with a download
  error that carries the file id and the rejection's message, whatever the rejection is:
  a rejection with the code 403 or 404 is treated like any other, whereas \<open>downloadFile\<close>
  turns the same 403 rejection into an authentication error. The rejection is attached
  as the cause when it is an \<open>Error\<close> instance; otherwise the cause is undefined.
\<close>

theorem getFileMetadata_remote_rejection:
  assumes valid: "fileId \<noteq> [] \<and> \<not> (\<forall>c \<in> set fileId. isWhiteSpace c)"
    and rejects: "files_get api (heap s (auth (this_drive s))) (metadata_params fileId) = Inl error"
  shows "\<exists>e. fst (getFileMetadata api fileId s) = Inl e
     \<and> err_name e = ''FileDownloadError'' \<and> err_code e = Some ''FILE_DOWNLOAD_ERROR''
     \<and> err_message e = ''File download failed: '' @ message_or error ''Unknown error''
     \<and> err_fileId e = Some fileId
     \<and> err_cause e = (if instanceof_Error error then Some error else None)
     \<and> (carries_code error 403
          \<and> files_get_stream api (heap s (auth (this_drive s))) (download_params fileId) = Inl error
          \<longrightarrow> (\<exists>d. fst (downloadFile api fileId s) = Inl d \<and> err_name d = ''AuthenticationError''))"
proof -
  from valid have ok: "\<not> fileId_missing fileId" by (simp add: fileId_missing_iff)
  from ok rejects have res: "fst (getFileMetadata api fileId s) =
     Inl (FileDownloadError (message_or error ''Unknown error'') (Some fileId)
            (Error_or_undefined error))"
    by (rule getFileMetadata_rejected)
  have contrast: "\<exists>d. fst (downloadFile api fileId s) = Inl d \<and> err_name d = ''AuthenticationError''"
    if "carries_code error 403"
      and "files_get_stream api (heap s (auth (this_drive s))) (download_params fileId) = Inl error"
    using that ok
    by (simp add: downloadFile_rejected downloadFile_catch_403 AuthenticationError_def)
  from res contrast show ?thesis
    by (simp add: FileDownloadError_def Error_or_undefined_def)
qed

text \<open>
  The claim as first stated attaches the rejection as the cause whatever it is. The
  plain object of the repository's 403 test is no \<open>Error\<close> instance: the download error
  \<open>getFileMetadata\<close> turns it into has no cause.
\<close>

theorem getFileMetadata_cause_counterexample:
  "\<not> fileId_missing ''forbidden-file''
   \<and> files_get (rejecting forbidden_rejection)
        (heap mock_service (auth (this_drive mock_service)))
        (metadata_params ''forbidden-file'') = Inl forbidden_rejection
   \<and> fst (getFileMetadata (rejecting forbidden_rejection) ''forbidden-file'' mock_service) =
        Inl (FileDownloadError ''Unknown error'' (Some ''forbidden-file'') None)
   \<and> err_cause (FileDownloadError ''Unknown error'' (Some ''forbidden-file'') None)
        \<noteq> Some forbidden_rejection"
  by (simp add: fileId_missing_iff isWhiteSpace_def rejecting_def getFileMetadata_rejected
        metadata_params_def forbidden_rejection_def message_or_def
        Error_or_undefined_def FileDownloadError_def)

theorem getFileMetadata_remote_rejection_witness:
  "''forbidden-file'' \<noteq> []
   \<and> \<not> (\<forall>c \<in> set ''forbidden-file''. isWhiteSpace c)
   \<and> files_get (rejecting forbidden_error)
        (heap mock_service (auth (this_drive mock_service)))
        (metadata_params ''forbidden-file'') = Inl forbidden_error
   \<and> carries_code forbidden_error 403
   \<and> files_get_stream (rejecting forbidden_error)
        (heap mock_service (auth (this_drive mock_service)))
        (download_params ''forbidden-file'') = Inl forbidden_error
   \<and> (\<exists>e. fst (getFileMetadata (rejecting forbidden_error) ''forbidden-file'' mock_service) = Inl e
         \<and> err_name e = ''FileDownloadError''
         \<and> err_fileId e = Some ''forbidden-file''
         \<and> err_cause e = Some forbidden_error)
   \<and> (\<exists>d. fst (downloadFile (rejecting forbidden_error) ''forbidden-file'' mock_service) = Inl d
         \<and> err_name d = ''AuthenticationError'')"
proof -
  have valid: "''forbidden-file'' \<noteq> [] \<and> \<not> (\<forall>c \<in> set ''forbidden-file''. isWhiteSpace c)"
    by (simp add: isWhiteSpace_def)
  have rejects: "files_get (rejecting forbidden_error)
        (heap mock_service (auth (this_drive mock_service)))
        (metadata_params ''forbidden-file'') = Inl forbidden_error"
    and rejects': "files_get_stream (rejecting forbidden_error)
        (heap mock_service (auth (this_drive mock_service)))
        (download_params ''forbidden-file'') = Inl forbidden_error"
    by (simp_all add: rejecting_def)
  have code: "carries_code forbidden_error 403" and inst: "instanceof_Error forbidden_error"
    by (simp_all add: forbidden_error_def)
  from getFileMetadata_remote_rejection [OF valid rejects] code inst valid rejects rejects'
  show ?thesis by auto
qed

lemma uploadFile_invalid:
  "\<not> validateFileName (name options) \<Longrightarrow>
   uploadFile api content options s =
     (Inl (FileUploadError ''Invalid file name'' (Some (name options)) None), s)"
  by (simp add: uploadFile_def)

lemma uploadFileToUserDrive_invalid:
  "\<not> validateFileName (name options) \<Longrightarrow>
   uploadFileToUserDrive api content options userOptions s =
     (Inl (FileUploadError ''Invalid file name'' (Some (name options)) None), s)"
  by (simp add: uploadFileToUserDrive_def)

lemma id_operations_missing:
  assumes "fileId_missing fileId"
  shows "downloadFile api fileId s =
           (Inl (FileDownloadError ''File ID is required'' (Some fileId) None), s)"
    and "getFileMetadata api fileId s =
           (Inl (FileDownloadError ''File ID is required'' (Some fileId) None), s)"
    and "downloadFileFromUserDrive api fileId userOptions s =
           (Inl (FileDownloadError ''File ID is required'' (Some fileId) None), s)"
    and "getFileMetadataFromUserDrive api fileId userOptions s =
           (Inl (FileDownloadError ''File ID is required'' (Some fileId) None), s)"
  using assms
  by (simp_all add: downloadFile_def getFileMetadata_def downloadFileFromUserDrive_def
        getFileMetadataFromUserDrive_def)

text \<open>
  C3. An operation given invalid input rejects with the error of its kind before
  anything else happens: \<open>uploadFile\<close> and \<open>uploadFileToUserDrive\<close> with an invalid name
  reject with an upload error, and \<open>downloadFile\<close>, \<open>getFileMetadata\<close>,
  \<open>downloadFileFromUserDrive\<close> and \<open>getFileMetadataFromUserDrive\<close> with an empty or
  white-space-only id reject with a download error. In each case the state after the
  call is the state before it: no remote call has been issued and no client built.
\<close>

theorem validation_precedes_remote_call:
  "(\<not> validateFileName (name options) \<longrightarrow>
      (\<exists>e. fst (uploadFile api content options s) = Inl e
          \<and> err_name e = ''FileUploadError'' \<and> err_code e = Some ''FILE_UPLOAD_ERROR'')
      \<and> snd (uploadFile api content options s) = s
      \<and> calls (snd (uploadFile api content options s)) = calls s
      \<and> (\<exists>e. fst (uploadFileToUserDrive api content options userOptions s) = Inl e
          \<and> err_name e = ''FileUploadError'' \<and> err_code e = Some ''FILE_UPLOAD_ERROR'')
      \<and> snd (uploadFileToUserDrive api content options userOptions s) = s
      \<and> calls (snd (uploadFileToUserDrive api content options userOptions s)) = calls s)
   \<and> (fileId = [] \<or> (\<forall>c \<in> set fileId. isWhiteSpace c) \<longrightarrow>
      (\<exists>e. fst (downloadFile api fileId s) = Inl e
          \<and> err_name e = ''FileDownloadError'' \<and> err_code e = Some ''FILE_DOWNLOAD_ERROR'')
      \<and> snd (downloadFile api fileId s) = s
      \<and> calls (snd (downloadFile api fileId s)) = calls s
      \<and> (\<exists>e. fst (getFileMetadata api fileId s) = Inl e
          \<and> err_name e = ''FileDownloadError'' \<and> err_code e = Some ''FILE_DOWNLOAD_ERROR'')
      \<and> snd (getFileMetadata api fileId s) = s
      \<and> calls (snd (getFileMetadata api fileId s)) = calls s
      \<and> (\<exists>e. fst (downloadFileFromUserDrive api fileId userOptions s) = Inl e
          \<and> err_name e = ''FileDownloadError'' \<and> err_code e = Some ''FILE_DOWNLOAD_ERROR'')
      \<and> snd (downloadFileFromUserDrive api fileId userOptions s) = s
      \<and> calls (snd (downloadFileFromUserDrive api fileId userOptions s)) = calls s
      \<and> (\<exists>e. fst (getFileMetadataFromUserDrive api fileId userOptions s) = Inl e
          \<and> err_name e = ''FileDownloadError'' \<and> err_code e = Some ''FILE_DOWNLOAD_ERROR'')
      \<and> snd (getFileMetadataFromUserDrive api fileId userOptions s) = s
      \<and> calls (snd (getFileMetadataFromUserDrive api fileId userOptions s)) = calls s)"
proof (intro conjI impI)
  assume "\<not> validateFileName (name options)"
  then have up: "uploadFile api content options s =
      (Inl (FileUploadError ''Invalid file name'' (Some (name options)) None), s)"
    and user: "uploadFileToUserDrive api content options userOptions s =
      (Inl (FileUploadError ''Invalid file name'' (Some (name options)) None), s)"
    by (simp_all add: uploadFile_invalid uploadFileToUserDrive_invalid)
  show "\<exists>e. fst (uploadFile api content options s) = Inl e
      \<and> err_name e = ''FileUploadError'' \<and> err_code e = Some ''FILE_UPLOAD_ERROR''"
    by (simp add: up FileUploadError_def)
  show "snd (uploadFile api content options s) = s"
    and "calls (snd (uploadFile api content options s)) = calls s"
    by (simp_all add: up)
  show "\<exists>e. fst (uploadFileToUserDrive api content options userOptions s) = Inl e
      \<and> err_name e = ''FileUploadError'' \<and> err_code e = Some ''FILE_UPLOAD_ERROR''"
    by (simp add: user FileUploadError_def)
  show "snd (uploadFileToUserDrive api content options userOptions s) = s"
    and "calls (snd (uploadFileToUserDrive api content options userOptions s)) = calls s"
    by (simp_all add: user)
next
  assume "fileId = [] \<or> (\<forall>c \<in> set fileId. isWhiteSpace c)"
  then have missing: "fileId_missing fileId"
    by (auto simp: fileId_missing_iff)
  note eqs = id_operations_missing [OF missing]
  show "\<exists>e. fst (downloadFile api fileId s) = Inl e
      \<and> err_name e = ''FileDownloadError'' \<and> err_code e = Some ''FILE_DOWNLOAD_ERROR''"
    by (simp add: eqs FileDownloadError_def)
  show "snd (downloadFile api fileId s) = s"
    and "calls (snd (downloadFile api fileId s)) = calls s"
    by (simp_all add: eqs)
  show "\<exists>e. fst (getFileMetadata api fileId s) = Inl e
      \<and> err_name e = ''FileDownloadError'' \<and> err_code e = Some ''FILE_DOWNLOAD_ERROR''"
    by (simp add: eqs FileDownloadError_def)
  show "snd (getFileMetadata api fileId s) = s"
    and "calls (snd (getFileMetadata api fileId s)) = calls s"
    by (simp_all add: eqs)
  show "\<exists>e. fst (downloadFileFromUserDrive api fileId userOptions s) = Inl e
      \<and> err_name e = ''FileDownloadError'' \<and> err_code e = Some ''FILE_DOWNLOAD_ERROR''"
    by (simp add: eqs FileDownloadError_def)
  show "snd (downloadFileFromUserDrive api fileId userOptions s) = s"
    and "calls (snd (downloadFileFromUserDrive api fileId userOptions s)) = calls s"
    by (simp_all add: eqs)
  show "\<exists>e. fst (getFileMetadataFromUserDrive api fileId userOptions s) = Inl e
      \<and> err_name e = ''FileDownloadError'' \<and> err_code e = Some ''FILE_DOWNLOAD_ERROR''"
    by (simp add: eqs FileDownloadError_def)
  show "snd (getFileMetadataFromUserDrive api fileId userOptions s) = s"
    and "calls (snd (getFileMetadataFromUserDrive api fileId userOptions s)) = calls s"
    by (simp_all add: eqs)
qed

theorem validation_precedes_remote_call_witness:
  "\<not> validateFileName (name invalid_upload)
   \<and> (''   '' = [] \<or> (\<forall>c \<in> set ''   ''. isWhiteSpace c))
   \<and> (\<exists>e. fst (uploadFile mock_api (Buffer []) invalid_upload mock_service) = Inl e
         \<and> err_name e = ''FileUploadError'')
   \<and> calls (snd (uploadFile mock_api (Buffer []) invalid_upload mock_service)) = []
   \<and> (\<exists>e. fst (uploadFileToUserDrive mock_api (Buffer []) invalid_upload mockUser mock_service) = Inl e
         \<and> err_name e = ''FileUploadError'')
   \<and> calls (snd (uploadFileToUserDrive mock_api (Buffer []) invalid_upload mockUser mock_service)) = []
   \<and> (\<exists>e. fst (downloadFile mock_api ''   '' mock_service) = Inl e
         \<and> err_name e = ''FileDownloadError'')
   \<and> calls (snd (downloadFile mock_api ''   '' mock_service)) = []
   \<and> (\<exists>e. fst (getFileMetadata mock_api ''   '' mock_service) = Inl e
         \<and> err_name e = ''FileDownloadError'')
   \<and> calls (snd (getFileMetadata mock_api ''   '' mock_service)) = []
   \<and> (\<exists>e. fst (downloadFileFromUserDrive mock_api ''   '' mockUser mock_service) = Inl e
         \<and> err_name e = ''FileDownloadError'')
   \<and> calls (snd (downloadFileFromUserDrive mock_api ''   '' mockUser mock_service)) = []
   \<and> (\<exists>e. fst (getFileMetadataFromUserDrive mock_api ''   '' mockUser mock_service) = Inl e
         \<and> err_name e = ''FileDownloadError'')
   \<and> calls (snd (getFileMetadataFromUserDrive mock_api ''   '' mockUser mock_service)) = []"
proof -
  have invalid: "\<not> validateFileName (name invalid_upload)"
    by (simp add: invalid_upload_def validateFileName_def invalidChars_test_def invalidChars_def)
  have blank: "''   '' = [] \<or> (\<forall>c \<in> set ''   ''. isWhiteSpace c)"
    by (simp add: isWhiteSpace_def)
  have none: "calls mock_service = []"
    by (simp add: mock_service_def)
  from validation_precedes_remote_call
         [where options = invalid_upload and api = mock_api and content = "Buffer []"
            and s = mock_service and userOptions = mockUser and fileId = "''   ''"]
       invalid blank none
  show ?thesis by auto
qed

lemma validateFileName_report_pdf: "validateFileName ''report.pdf''"
  by (simp add: validateFileName_def invalidChars_test_def invalidChars_def trim_def
        trimStart_def trimEnd_def isWhiteSpace_def)

lemma getMimeTypeFromExtension_report_pdf:
  "getMimeTypeFromExtension ''report.pdf'' = JsString ''application/pdf''"
  by (simp add: getMimeTypeFromExtension_def pop_def toLowerCase_def upperCase_def
        lowerCase_def mimeTypes_get_def mimeTypes_def)

lemma uploadFile_valid_without_mimeType:
  assumes "validateFileName (name options)" and "mimeType options = None"
  shows "uploadFile api content options s =
     (let params = \<lparr>requestBody = \<lparr>body_name = name options, body_parents = parents options\<rparr>,
                     media = \<lparr>media_mimeType = getMimeTypeFromExtension (name options),
                              media_body = (case content of Buffer b \<Rightarrow> bufferToStream b
                                            | Stream r \<Rightarrow> r)\<rparr>,
                     create_fields = DEFAULT_FILE_FIELDS\<rparr>
      in (case files_create api (heap s (auth (this_drive s))) params of
            Inr data \<Rightarrow> Inr (with_downloadUrl data)
          | Inl error \<Rightarrow> Inl (FileUploadError (message_or error ''Unknown upload error'')
                               (Some (name options)) (Error_or_undefined error)),
          issue (FilesCreate (this_drive s) params) s))"
  using assms
  by (simp add: uploadFile_def Let_def optional_string_def split: sum.split)

text \<open>
  C4. Uploading a buffer named \<open>report.pdf\<close> with no MIME type in the options issues the
  remote create call with the MIME type \<open>application/pdf\<close>, and when the remote service
  answers with a file whose id is \<open>X\<close> the result's \<open>downloadUrl\<close> is
  \<open>https://drive.google.com/file/d/X/view\<close>. In general, an upload with a valid name and no
  MIME type issues exactly one remote call, a create call through the service's handle
  with the name, the parents, the content as a stream, the fixed field list and the MIME
  type \<open>getMimeTypeFromExtension\<close> infers from the name; and when that call resolves, the
  result is the response data with \<open>downloadUrl\<close> set to
  \<open>https://drive.google.com/file/d/\<close>, the returned id, \<open>/view\<close>.
\<close>

theorem uploadFile_infers_mimeType:
  "calls (snd (uploadFile api (Buffer b) \<lparr>name = ''report.pdf'', parents = p, mimeType = None\<rparr> s))
     = calls s @
       [FilesCreate (this_drive s)
          \<lparr>requestBody = \<lparr>body_name = ''report.pdf'', body_parents = p\<rparr>,
           media = \<lparr>media_mimeType = JsString ''application/pdf'', media_body = Readable [b]\<rparr>,
           create_fields = ''id,name,mimeType,size,parents,createdTime,modifiedTime''\<rparr>]
   \<and> (files_create api (heap s (auth (this_drive s)))
          \<lparr>requestBody = \<lparr>body_name = ''report.pdf'', body_parents = p\<rparr>,
           media = \<lparr>media_mimeType = JsString ''application/pdf'', media_body = Readable [b]\<rparr>,
           create_fields = ''id,name,mimeType,size,parents,createdTime,modifiedTime''\<rparr> = Inr d
        \<and> file_id d = ''X''
        \<longrightarrow> (\<exists>r. fst (uploadFile api (Buffer b)
                        \<lparr>name = ''report.pdf'', parents = p, mimeType = None\<rparr> s) = Inr r
                 \<and> downloadUrl r = Some ''https://drive.google.com/file/d/X/view''))
   \<and> (validateFileName (name options) \<and> mimeType options = None
        \<longrightarrow> calls (snd (uploadFile api content options s))
              = calls s @
                [FilesCreate (this_drive s)
                   \<lparr>requestBody = \<lparr>body_name = name options, body_parents = parents options\<rparr>,
                    media = \<lparr>media_mimeType = getMimeTypeFromExtension (name options),
                             media_body = (case content of Buffer b \<Rightarrow> Readable [b]
                                           | Stream r \<Rightarrow> r)\<rparr>,
                    create_fields = ''id,name,mimeType,size,parents,createdTime,modifiedTime''\<rparr>])
   \<and> (validateFileName (name options) \<and> mimeType options = None
        \<and> files_create api (heap s (auth (this_drive s)))
             \<lparr>requestBody = \<lparr>body_name = name options, body_parents = parents options\<rparr>,
              media = \<lparr>media_mimeType = getMimeTypeFromExtension (name options),
                       media_body = (case content of Buffer b \<Rightarrow> Readable [b]
                                     | Stream r \<Rightarrow> r)\<rparr>,
              create_fields = ''id,name,mimeType,size,parents,createdTime,modifiedTime''\<rparr>
            = Inr response
        \<longrightarrow> fst (uploadFile api content options s)
              = Inr \<lparr>file_id = file_id response, file_name = file_name response,
                     file_mimeType = file_mimeType response, file_size = file_size response,
                     file_parents = file_parents response,
                     file_createdTime = file_createdTime response,
                     file_modifiedTime = file_modifiedTime response,
                     downloadUrl = Some (''https://drive.google.com/file/d/''
                                          @ file_id response @ ''/view'')\<rparr>)"
proof (intro conjI impI)
  let ?opts = "\<lparr>name = ''report.pdf'', parents = p, mimeType = None\<rparr>"
  have eq: "uploadFile api (Buffer b) ?opts s =
     (let params = \<lparr>requestBody = \<lparr>body_name = name ?opts, body_parents = parents ?opts\<rparr>,
                     media = \<lparr>media_mimeType = getMimeTypeFromExtension (name ?opts),
                              media_body = (case Buffer b of Buffer b \<Rightarrow> bufferToStream b
                                            | Stream r \<Rightarrow> r)\<rparr>,
                     create_fields = DEFAULT_FILE_FIELDS\<rparr>
      in (case files_create api (heap s (auth (this_drive s))) params of
            Inr data \<Rightarrow> Inr (with_downloadUrl data)
          | Inl error \<Rightarrow> Inl (FileUploadError (message_or error ''Unknown upload error'')
                               (Some (name ?opts)) (Error_or_undefined error)),
          issue (FilesCreate (this_drive s) params) s))"
    by (rule uploadFile_valid_without_mimeType) (simp_all add: validateFileName_report_pdf)
  show "calls (snd (uploadFile api (Buffer b) ?opts s))
     = calls s @
       [FilesCreate (this_drive s)
          \<lparr>requestBody = \<lparr>body_name = ''report.pdf'', body_parents = p\<rparr>,
           media = \<lparr>media_mimeType = JsString ''application/pdf'', media_body = Readable [b]\<rparr>,
           create_fields = ''id,name,mimeType,size,parents,createdTime,modifiedTime''\<rparr>]"
    by (simp add: eq Let_def getMimeTypeFromExtension_report_pdf bufferToStream_def
          DEFAULT_FILE_FIELDS_def)
  show "\<exists>r. fst (uploadFile api (Buffer b) ?opts s) = Inr r
          \<and> downloadUrl r = Some ''https://drive.google.com/file/d/X/view''"
    if "files_create api (heap s (auth (this_drive s)))
          \<lparr>requestBody = \<lparr>body_name = ''report.pdf'', body_parents = p\<rparr>,
           media = \<lparr>media_mimeType = JsString ''application/pdf'', media_body = Readable [b]\<rparr>,
           create_fields = ''id,name,mimeType,size,parents,createdTime,modifiedTime''\<rparr> = Inr d
        \<and> file_id d = ''X''"
    using that
    by (simp add: eq Let_def getMimeTypeFromExtension_report_pdf bufferToStream_def
          DEFAULT_FILE_FIELDS_def with_downloadUrl_def)
  have body: "(case content of Buffer b \<Rightarrow> bufferToStream b | Stream r \<Rightarrow> r)
      = (case content of Buffer b \<Rightarrow> Readable [b] | Stream r \<Rightarrow> r)"
    by (simp add: bufferToStream_def split: file_content.split)
  show "calls (snd (uploadFile api content options s))
      = calls s @
        [FilesCreate (this_drive s)
           \<lparr>requestBody = \<lparr>body_name = name options, body_parents = parents options\<rparr>,
            media = \<lparr>media_mimeType = getMimeTypeFromExtension (name options),
                     media_body = (case content of Buffer b \<Rightarrow> Readable [b]
                                   | Stream r \<Rightarrow> r)\<rparr>,
            create_fields = ''id,name,mimeType,size,parents,createdTime,modifiedTime''\<rparr>]"
    if "validateFileName (name options) \<and> mimeType options = None"
    using that
    by (simp add: uploadFile_valid_without_mimeType Let_def body DEFAULT_FILE_FIELDS_def)
  show "fst (uploadFile api content options s)
      = Inr \<lparr>file_id = file_id response, file_name = file_name response,
             file_mimeType = file_mimeType response, file_size = file_size response,
             file_parents = file_parents response,
             file_createdTime = file_createdTime response,
             file_modifiedTime = file_modifiedTime response,
             downloadUrl = Some (''https://drive.google.com/file/d/''
                                  @ file_id response @ ''/view'')\<rparr>"
    if "validateFileName (name options) \<and> mimeType options = None
        \<and> files_create api (heap s (auth (this_drive s)))
             \<lparr>requestBody = \<lparr>body_name = name options, body_parents = parents options\<rparr>,
              media = \<lparr>media_mimeType = getMimeTypeFromExtension (name options),
                       media_body = (case content of Buffer b \<Rightarrow> Readable [b]
                                     | Stream r \<Rightarrow> r)\<rparr>,
              create_fields = ''id,name,mimeType,size,parents,createdTime,modifiedTime''\<rparr>
            = Inr response"
    using that
    by (simp add: uploadFile_valid_without_mimeType Let_def body DEFAULT_FILE_FIELDS_def
          with_downloadUrl_def)
qed

theorem uploadFile_infers_mimeType_witness:
  "files_create (resolving responseX (Readable [])) (heap mock_service (auth (this_drive mock_service)))
      \<lparr>requestBody = \<lparr>body_name = ''report.pdf'', body_parents = None\<rparr>,
       media = \<lparr>media_mimeType = JsString ''application/pdf'', media_body = Readable [[1, 2, 3]]\<rparr>,
       create_fields = ''id,name,mimeType,size,parents,createdTime,modifiedTime''\<rparr> = Inr responseX
   \<and> file_id responseX = ''X''
   \<and> validateFileName (name report_upload)
   \<and> mimeType report_upload = None
   \<and> calls (snd (uploadFile (resolving responseX (Readable [])) (Buffer [1, 2, 3]) report_upload
                  mock_service))
       = [FilesCreate \<lparr>version = ''v3'', auth = 0\<rparr>
            \<lparr>requestBody = \<lparr>body_name = ''report.pdf'', body_parents = None\<rparr>,
             media = \<lparr>media_mimeType = JsString ''application/pdf'',
                      media_body = Readable [[1, 2, 3]]\<rparr>,
             create_fields = ''id,name,mimeType,size,parents,createdTime,modifiedTime''\<rparr>]
   \<and> (\<exists>r. fst (uploadFile (resolving responseX (Readable [])) (Buffer [1, 2, 3]) report_upload
                   mock_service) = Inr r
         \<and> downloadUrl r = Some ''https://drive.google.com/file/d/X/view'')
   \<and> files_create mock_api (heap mock_service (auth (this_drive mock_service)))
        \<lparr>requestBody = \<lparr>body_name = ''report.pdf'', body_parents = None\<rparr>,
         media = \<lparr>media_mimeType = JsString ''application/pdf'', media_body = Readable [[1, 2, 3]]\<rparr>,
         create_fields = ''id,name,mimeType,size,parents,createdTime,modifiedTime''\<rparr>
       = Inr mockFileResponse
   \<and> fst (uploadFile mock_api (Buffer [1, 2, 3]) report_upload mock_service)
       = Inr \<lparr>file_id = ''test-file-id'', file_name = ''test-file.txt'',
              file_mimeType = ''text/plain'', file_size = ''1024'', file_parents = None,
              file_createdTime = ''2023-01-01T00:00:00.000Z'',
              file_modifiedTime = ''2023-01-01T00:00:00.000Z'',
              downloadUrl = Some ''https://drive.google.com/file/d/test-file-id/view''\<rparr>"
proof -
  have resolves: "files_create (resolving responseX (Readable []))
      (heap mock_service (auth (this_drive mock_service)))
      \<lparr>requestBody = \<lparr>body_name = ''report.pdf'', body_parents = None\<rparr>,
       media = \<lparr>media_mimeType = JsString ''application/pdf'', media_body = Readable [[1, 2, 3]]\<rparr>,
       create_fields = ''id,name,mimeType,size,parents,createdTime,modifiedTime''\<rparr> = Inr responseX"
    by (simp add: resolving_def)
  have resolves': "files_create mock_api (heap mock_service (auth (this_drive mock_service)))
        \<lparr>requestBody = \<lparr>body_name = ''report.pdf'', body_parents = None\<rparr>,
         media = \<lparr>media_mimeType = JsString ''application/pdf'', media_body = Readable [[1, 2, 3]]\<rparr>,
         create_fields = ''id,name,mimeType,size,parents,createdTime,modifiedTime''\<rparr>
       = Inr mockFileResponse"
    by (simp add: mock_api_def resolving_def)
  have idX: "file_id responseX = ''X''"
    by (simp add: responseX_def)
  have valid: "validateFileName (name report_upload)" and none: "mimeType report_upload = None"
    by (simp_all add: report_upload_def validateFileName_report_pdf)
  have pdf: "getMimeTypeFromExtension (name report_upload) = JsString ''application/pdf''"
    by (simp add: report_upload_def getMimeTypeFromExtension_report_pdf)
  have start: "calls mock_service = []" "this_drive mock_service = \<lparr>version = ''v3'', auth = 0\<rparr>"
    by (simp_all add: mock_service_def)
  from uploadFile_infers_mimeType
         [where api = "resolving responseX (Readable [])" and b = "[1, 2, 3]" and p = None
            and s = mock_service and d = responseX and options = report_upload
            and content = "Buffer [1, 2, 3]"]
       resolves idX valid none start
  have scenario: "calls (snd (uploadFile (resolving responseX (Readable [])) (Buffer [1, 2, 3])
                  report_upload mock_service))
       = [FilesCreate \<lparr>version = ''v3'', auth = 0\<rparr>
            \<lparr>requestBody = \<lparr>body_name = ''report.pdf'', body_parents = None\<rparr>,
             media = \<lparr>media_mimeType = JsString ''application/pdf'',
                      media_body = Readable [[1, 2, 3]]\<rparr>,
             create_fields = ''id,name,mimeType,size,parents,createdTime,modifiedTime''\<rparr>]
     \<and> (\<exists>r. fst (uploadFile (resolving responseX (Readable [])) (Buffer [1, 2, 3]) report_upload
                   mock_service) = Inr r
         \<and> downloadUrl r = Some ''https://drive.google.com/file/d/X/view'')"
    by (simp add: report_upload_def)
  from uploadFile_infers_mimeType
         [where api = mock_api and s = mock_service and options = report_upload
            and content = "Buffer [1, 2, 3]" and response = mockFileResponse]
       resolves' valid none pdf
  have general: "fst (uploadFile mock_api (Buffer [1, 2, 3]) report_upload mock_service)
       = Inr \<lparr>file_id = ''test-file-id'', file_name = ''test-file.txt'',
              file_mimeType = ''text/plain'', file_size = ''1024'', file_parents = None,
              file_createdTime = ''2023-01-01T00:00:00.000Z'',
              file_modifiedTime = ''2023-01-01T00:00:00.000Z'',
              downloadUrl = Some ''https://drive.google.com/file/d/test-file-id/view''\<rparr>"
    by (simp add: report_upload_def mockFileResponse_def)
  from resolves idX valid none scenario resolves' general show ?thesis
    by blast
qed

subsection \<open>The client built for one call\<close>

lemma createUserDriveInstance_result:
  "fst (createUserDriveInstance api creds s) = google_drive api DRIVE_API_VERSION (lim s)"
  by (simp add: createUserDriveInstance_def OAuth2_new_def)

lemma createUserDriveInstance_state:
  "this_options (snd (createUserDriveInstance api creds s)) = this_options s"
  "this_drive (snd (createUserDriveInstance api creds s)) = this_drive s"
  "calls (snd (createUserDriveInstance api creds s)) = calls s"
  "lim (snd (createUserDriveInstance api creds s)) = Suc (lim s)"
  "heap (snd (createUserDriveInstance api creds s)) =
     (heap s)(lim s \<mapsto> user_client (this_options s) creds)"
  by (simp_all add: createUserDriveInstance_def OAuth2_new_def setCredentials_def user_client_def)

lemma google_drive_cases:
  obtains (throws) e where "drive_throws api = Some e" "google_drive api v a = Inl e"
  | (returns) "drive_throws api = None" "google_drive api v a = Inr \<lparr>version = v, auth = a\<rparr>"
  by (cases "drive_throws api") (simp_all add: google_drive_def)

subsection \<open>Outcome of each operation when its remote call rejects\<close>

lemma testConnection_result:
  "fst (testConnection api s) =
     Inr (case about_get api (heap s (auth (this_drive s))) ''user'' of
            Inr _ \<Rightarrow> True | Inl _ \<Rightarrow> False)"
  by (simp add: testConnection_def Let_def split: sum.split)

lemma testUserDriveConnection_returns:
  "\<exists>b. fst (testUserDriveConnection api userOptions s) = Inr b"
  by (auto simp: testUserDriveConnection_def Let_def split: prod.split sum.split)

lemma uploadFile_raises:
  "validateFileName (name options) \<Longrightarrow> \<forall>c p. files_create api c p = Inl error \<Longrightarrow>
   \<exists>e. fst (uploadFile api content options s) = Inl e"
  by (simp add: uploadFile_def Let_def)

lemma uploadFileToUserDrive_raises:
  "validateFileName (name options) \<Longrightarrow> \<forall>c p. files_create api c p = Inl error \<Longrightarrow>
   \<exists>e. fst (uploadFileToUserDrive api content options userOptions s) = Inl e"
  by (auto simp: uploadFileToUserDrive_def Let_def split: prod.split sum.split)

lemma downloadFile_raises:
  "\<not> fileId_missing fileId \<Longrightarrow> \<forall>c p. files_get_stream api c p = Inl error \<Longrightarrow>
   \<exists>e. fst (downloadFile api fileId s) = Inl e"
  by (simp add: downloadFile_def Let_def)

lemma downloadFileFromUserDrive_raises:
  "\<not> fileId_missing fileId \<Longrightarrow> \<forall>c p. files_get_stream api c p = Inl error \<Longrightarrow>
   \<exists>e. fst (downloadFileFromUserDrive api fileId userOptions s) = Inl e"
  by (auto simp: downloadFileFromUserDrive_def Let_def split: prod.split sum.split)

lemma getFileMetadata_raises:
  "\<not> fileId_missing fileId \<Longrightarrow> \<forall>c p. files_get api c p = Inl error \<Longrightarrow>
   \<exists>e. fst (getFileMetadata api fileId s) = Inl e"
  by (simp add: getFileMetadata_def Let_def)

lemma getFileMetadataFromUserDrive_raises:
  "\<not> fileId_missing fileId \<Longrightarrow> \<forall>c p. files_get api c p = Inl error \<Longrightarrow>
   \<exists>e. fst (getFileMetadataFromUserDrive api fileId userOptions s) = Inl e"
  by (auto simp: getFileMetadataFromUserDrive_def Let_def split: prod.split sum.split)

text \<open>
  C8. \<open>testConnection\<close> returns true when the remote identity call resolves and false
  when it rejects, whatever it rejects with; it never raises. The connection test is the
  only operation of the service that turns failure into a value: its per-user variant
  \<open>testUserDriveConnection\<close> never raises either, while uploading, downloading and reading
  metadata, given valid input, raise in both variants when their remote call rejects.
\<close>

theorem testConnection_swallows_failure:
  "(about_get api (heap s (auth (this_drive s))) ''user'' = Inr u
      \<longrightarrow> fst (testConnection api s) = Inr True)
   \<and> (about_get api (heap s (auth (this_drive s))) ''user'' = Inl error
      \<longrightarrow> fst (testConnection api s) = Inr False)
   \<and> (\<exists>b. fst (testConnection api s) = Inr b)
   \<and> (\<exists>b. fst (testUserDriveConnection api userOptions s) = Inr b)
   \<and> (validateFileName (name options) \<and> (\<forall>c p. files_create api c p = Inl error)
      \<longrightarrow> (\<exists>e. fst (uploadFile api content options s) = Inl e)
        \<and> (\<exists>e. fst (uploadFileToUserDrive api content options userOptions s) = Inl e))
   \<and> (fileId \<noteq> [] \<and> \<not> (\<forall>c \<in> set fileId. isWhiteSpace c)
        \<and> (\<forall>c p. files_get_stream api c p = Inl error)
      \<longrightarrow> (\<exists>e. fst (downloadFile api fileId s) = Inl e)
        \<and> (\<exists>e. fst (downloadFileFromUserDrive api fileId userOptions s) = Inl e))
   \<and> (fileId \<noteq> [] \<and> \<not> (\<forall>c \<in> set fileId. isWhiteSpace c)
        \<and> (\<forall>c p. files_get api c p = Inl error)
      \<longrightarrow> (\<exists>e. fst (getFileMetadata api fileId s) = Inl e)
        \<and> (\<exists>e. fst (getFileMetadataFromUserDrive api fileId userOptions s) = Inl e))"
proof (intro conjI impI)
  show "fst (testConnection api s) = Inr True"
    if "about_get api (heap s (auth (this_drive s))) ''user'' = Inr u"
    using that by (simp add: testConnection_result)
  show "fst (testConnection api s) = Inr False"
    if "about_get api (heap s (auth (this_drive s))) ''user'' = Inl error"
    using that by (simp add: testConnection_result)
  show "\<exists>b. fst (testConnection api s) = Inr b"
    by (simp add: testConnection_result)
  show "\<exists>b. fst (testUserDriveConnection api userOptions s) = Inr b"
    by (rule testUserDriveConnection_returns)
next
  assume "validateFileName (name options) \<and> (\<forall>c p. files_create api c p = Inl error)"
  then show "\<exists>e. fst (uploadFile api content options s) = Inl e"
    and "\<exists>e. fst (uploadFileToUserDrive api content options userOptions s) = Inl e"
    by (simp_all add: uploadFile_raises uploadFileToUserDrive_raises)
next
  assume "fileId \<noteq> [] \<and> \<not> (\<forall>c \<in> set fileId. isWhiteSpace c)
        \<and> (\<forall>c p. files_get_stream api c p = Inl error)"
  then have "\<not> fileId_missing fileId" and "\<forall>c p. files_get_stream api c p = Inl error"
    by (simp_all add: fileId_missing_iff)
  then show "\<exists>e. fst (downloadFile api fileId s) = Inl e"
    and "\<exists>e. fst (downloadFileFromUserDrive api fileId userOptions s) = Inl e"
    by (rule downloadFile_raises, rule downloadFileFromUserDrive_raises)
next
  assume "fileId \<noteq> [] \<and> \<not> (\<forall>c \<in> set fileId. isWhiteSpace c)
        \<and> (\<forall>c p. files_get api c p = Inl error)"
  then have "\<not> fileId_missing fileId" and "\<forall>c p. files_get api c p = Inl error"
    by (simp_all add: fileId_missing_iff)
  then show "\<exists>e. fst (getFileMetadata api fileId s) = Inl e"
    and "\<exists>e. fst (getFileMetadataFromUserDrive api fileId userOptions s) = Inl e"
    by (rule getFileMetadata_raises, rule getFileMetadataFromUserDrive_raises)
qed

theorem testConnection_swallows_failure_witness:
  "about_get mock_api (heap mock_service (auth (this_drive mock_service))) ''user'' = Inr ()
   \<and> fst (testConnection mock_api mock_service) = Inr True
   \<and> about_get (rejecting connection_failed)
        (heap mock_service (auth (this_drive mock_service))) ''user'' = Inl connection_failed
   \<and> fst (testConnection (rejecting connection_failed) mock_service) = Inr False
   \<and> validateFileName (name report_upload)
   \<and> (\<forall>c p. files_create (rejecting connection_failed) c p = Inl connection_failed)
   \<and> (\<exists>e. fst (uploadFile (rejecting connection_failed) (Buffer []) report_upload mock_service)
            = Inl e)
   \<and> ''test-file-id'' \<noteq> []
   \<and> \<not> (\<forall>c \<in> set ''test-file-id''. isWhiteSpace c)
   \<and> (\<forall>c p. files_get_stream (rejecting connection_failed) c p = Inl connection_failed)
   \<and> (\<exists>e. fst (downloadFile (rejecting connection_failed) ''test-file-id'' mock_service) = Inl e)
   \<and> (\<forall>c p. files_get (rejecting connection_failed) c p = Inl connection_failed)
   \<and> (\<exists>e. fst (getFileMetadata (rejecting connection_failed) ''test-file-id'' mock_service)
            = Inl e)"
proof -
  have resolves: "about_get mock_api (heap mock_service (auth (this_drive mock_service))) ''user''
      = Inr ()"
    by (simp add: mock_api_def resolving_def)
  have rejects: "about_get (rejecting connection_failed)
        (heap mock_service (auth (this_drive mock_service))) ''user'' = Inl connection_failed"
    and all_reject: "\<forall>c p. files_create (rejecting connection_failed) c p = Inl connection_failed"
      "\<forall>c p. files_get_stream (rejecting connection_failed) c p = Inl connection_failed"
      "\<forall>c p. files_get (rejecting connection_failed) c p = Inl connection_failed"
    by (simp_all add: rejecting_def)
  have valid: "validateFileName (name report_upload)"
    by (simp add: report_upload_def validateFileName_report_pdf)
  have present: "''test-file-id'' \<noteq> [] \<and> \<not> (\<forall>c \<in> set ''test-file-id''. isWhiteSpace c)"
    by (simp add: isWhiteSpace_def)
  from testConnection_swallows_failure
         [where api = mock_api and s = mock_service and u = "()"]
       resolves
  have true: "fst (testConnection mock_api mock_service) = Inr True"
    by blast
  from testConnection_swallows_failure
         [where api = "rejecting connection_failed" and s = mock_service
            and error = connection_failed and options = report_upload and content = "Buffer []"
            and fileId = "''test-file-id''"]
       rejects all_reject valid present
  have "fst (testConnection (rejecting connection_failed) mock_service) = Inr False"
    and "\<exists>e. fst (uploadFile (rejecting connection_failed) (Buffer []) report_upload mock_service)
            = Inl e"
    and "\<exists>e. fst (downloadFile (rejecting connection_failed) ''test-file-id'' mock_service) = Inl e"
    and "\<exists>e. fst (getFileMetadata (rejecting connection_failed) ''test-file-id'' mock_service)
            = Inl e"
    by blast+
  with true resolves rejects all_reject valid present show ?thesis
    by blast
qed

subsection \<open>Frame of the per-user operations\<close>

lemma built_client_after_create:
  "built_client userOptions s (snd (createUserDriveInstance api (credentials userOptions) s))"
  by (simp add: built_client_def createUserDriveInstance_state)

lemma built_client_issue:
  assumes "built_client userOptions s s1" and "calls s1 = calls s"
    and "call_drive c = \<lparr>version = DRIVE_API_VERSION, auth = lim s\<rparr>"
  shows "built_client userOptions s (issue c s1)"
  using assms by (simp add: built_client_def)

lemma built_client_unchanged:
  assumes "built_client userOptions s s'" and "this_options s' = this_options s"
    and "this_drive s' = this_drive s" and "auth (this_drive s) < lim s"
  shows "service_unchanged s s'"
  using assms by (simp add: built_client_def service_unchanged_def)

lemma service_unchanged_refl: "service_unchanged s s"
  by (simp add: service_unchanged_def)

lemma user_operation_frame:
  assumes "created = createUserDriveInstance api (credentials userOptions) s"
  shows "built_client userOptions s (snd created)"
    and "this_options (snd created) = this_options s"
    and "this_drive (snd created) = this_drive s"
    and "calls (snd created) = calls s"
    and "fst created = Inr userDrive \<Longrightarrow> call_drive (FilesCreate userDrive p)
           = \<lparr>version = DRIVE_API_VERSION, auth = lim s\<rparr>"
    and "fst created = Inr userDrive \<Longrightarrow> call_drive (FilesGet userDrive g)
           = \<lparr>version = DRIVE_API_VERSION, auth = lim s\<rparr>"
    and "fst created = Inr userDrive \<Longrightarrow> call_drive (AboutGet userDrive f)
           = \<lparr>version = DRIVE_API_VERSION, auth = lim s\<rparr>"
  using assms
  by (auto simp: built_client_after_create createUserDriveInstance_state
        createUserDriveInstance_result google_drive_def split: option.splits)

lemma uploadFileToUserDrive_frame:
  assumes "validateFileName (name options)"
  shows "built_client userOptions s (snd (uploadFileToUserDrive api content options userOptions s))"
    and "this_options (snd (uploadFileToUserDrive api content options userOptions s)) = this_options s"
    and "this_drive (snd (uploadFileToUserDrive api content options userOptions s)) = this_drive s"
proof -
  obtain created where c: "created = createUserDriveInstance api (credentials userOptions) s"
    by simp
  note f = user_operation_frame [OF c]
  obtain r s1 where rs: "created = (r, s1)" by (cases created)
  show "built_client userOptions s (snd (uploadFileToUserDrive api content options userOptions s))"
    using assms f rs c [symmetric]
    by (cases r) (auto simp: uploadFileToUserDrive_def Let_def intro!: built_client_issue split: sum.split)
  show "this_options (snd (uploadFileToUserDrive api content options userOptions s)) = this_options s"
    using assms f rs c [symmetric]
    by (cases r) (auto simp: uploadFileToUserDrive_def Let_def split: sum.split)
  show "this_drive (snd (uploadFileToUserDrive api content options userOptions s)) = this_drive s"
    using assms f rs c [symmetric]
    by (cases r) (auto simp: uploadFileToUserDrive_def Let_def split: sum.split)
qed

lemma downloadFileFromUserDrive_frame:
  assumes "\<not> fileId_missing fileId"
  shows "built_client userOptions s (snd (downloadFileFromUserDrive api fileId userOptions s))"
    and "this_options (snd (downloadFileFromUserDrive api fileId userOptions s)) = this_options s"
    and "this_drive (snd (downloadFileFromUserDrive api fileId userOptions s)) = this_drive s"
proof -
  obtain created where c: "created = createUserDriveInstance api (credentials userOptions) s"
    by simp
  note f = user_operation_frame [OF c]
  obtain r s1 where rs: "created = (r, s1)" by (cases created)
  show "built_client userOptions s (snd (downloadFileFromUserDrive api fileId userOptions s))"
    using assms f rs c [symmetric]
    by (cases r) (auto simp: downloadFileFromUserDrive_def Let_def intro!: built_client_issue split: sum.split)
  show "this_options (snd (downloadFileFromUserDrive api fileId userOptions s)) = this_options s"
    using assms f rs c [symmetric]
    by (cases r) (auto simp: downloadFileFromUserDrive_def Let_def split: sum.split)
  show "this_drive (snd (downloadFileFromUserDrive api fileId userOptions s)) = this_drive s"
    using assms f rs c [symmetric]
    by (cases r) (auto simp: downloadFileFromUserDrive_def Let_def split: sum.split)
qed

lemma getFileMetadataFromUserDrive_frame:
  assumes "\<not> fileId_missing fileId"
  shows "built_client userOptions s (snd (getFileMetadataFromUserDrive api fileId userOptions s))"
    and "this_options (snd (getFileMetadataFromUserDrive api fileId userOptions s)) = this_options s"
    and "this_drive (snd (getFileMetadataFromUserDrive api fileId userOptions s)) = this_drive s"
proof -
  obtain created where c: "created = createUserDriveInstance api (credentials userOptions) s"
    by simp
  note f = user_operation_frame [OF c]
  obtain r s1 where rs: "created = (r, s1)" by (cases created)
  show "built_client userOptions s (snd (getFileMetadataFromUserDrive api fileId userOptions s))"
    using assms f rs c [symmetric]
    by (cases r) (auto simp: getFileMetadataFromUserDrive_def Let_def intro!: built_client_issue split: sum.split)
  show "this_options (snd (getFileMetadataFromUserDrive api fileId userOptions s)) = this_options s"
    using assms f rs c [symmetric]
    by (cases r) (auto simp: getFileMetadataFromUserDrive_def Let_def split: sum.split)
  show "this_drive (snd (getFileMetadataFromUserDrive api fileId userOptions s)) = this_drive s"
    using assms f rs c [symmetric]
    by (cases r) (auto simp: getFileMetadataFromUserDrive_def Let_def split: sum.split)
qed

lemma testUserDriveConnection_frame:
  shows "built_client userOptions s (snd (testUserDriveConnection api userOptions s))"
    and "this_options (snd (testUserDriveConnection api userOptions s)) = this_options s"
    and "this_drive (snd (testUserDriveConnection api userOptions s)) = this_drive s"
proof -
  obtain created where c: "created = createUserDriveInstance api (credentials userOptions) s"
    by simp
  note f = user_operation_frame [OF c]
  obtain r s1 where rs: "created = (r, s1)" by (cases created)
  show "built_client userOptions s (snd (testUserDriveConnection api userOptions s))"
    using f rs c [symmetric]
    by (cases r) (auto simp: testUserDriveConnection_def Let_def intro!: built_client_issue split: sum.split)
  show "this_options (snd (testUserDriveConnection api userOptions s)) = this_options s"
    using f rs c [symmetric]
    by (cases r) (auto simp: testUserDriveConnection_def Let_def split: sum.split)
  show "this_drive (snd (testUserDriveConnection api userOptions s)) = this_drive s"
    using f rs c [symmetric]
    by (cases r) (auto simp: testUserDriveConnection_def Let_def split: sum.split)
qed

text \<open>
  C9. Every per-user operation leaves the service object as it was: after
  \<open>uploadFileToUserDrive\<close>, \<open>downloadFileFromUserDrive\<close>, \<open>getFileMetadataFromUserDrive\<close> and
  \<open>testUserDriveConnection\<close> the stored options and the stored handle are the ones before
  the call, and the client that handle refers to is untouched. An operation that gets
  past its input validation builds one new client from the caller's credentials, and the
  remote call it issues goes through a handle on that client, not through the stored one.
\<close>

theorem per_user_operations_frame:
  assumes allocated: "auth (this_drive s) < lim s"
  shows "service_unchanged s (snd (uploadFileToUserDrive api content options userOptions s))
     \<and> (validateFileName (name options) \<longrightarrow>
          built_client userOptions s (snd (uploadFileToUserDrive api content options userOptions s)))
     \<and> service_unchanged s (snd (downloadFileFromUserDrive api fileId userOptions s))
     \<and> (fileId \<noteq> [] \<and> \<not> (\<forall>c \<in> set fileId. isWhiteSpace c) \<longrightarrow>
          built_client userOptions s (snd (downloadFileFromUserDrive api fileId userOptions s)))
     \<and> service_unchanged s (snd (getFileMetadataFromUserDrive api fileId userOptions s))
     \<and> (fileId \<noteq> [] \<and> \<not> (\<forall>c \<in> set fileId. isWhiteSpace c) \<longrightarrow>
          built_client userOptions s (snd (getFileMetadataFromUserDrive api fileId userOptions s)))
     \<and> service_unchanged s (snd (testUserDriveConnection api userOptions s))
     \<and> built_client userOptions s (snd (testUserDriveConnection api userOptions s))"
proof -
  have upload: "service_unchanged s (snd (uploadFileToUserDrive api content options userOptions s))"
  proof (cases "validateFileName (name options)")
    case True
    from uploadFileToUserDrive_frame [OF True] allocated show ?thesis
      by (rule built_client_unchanged)
  next
    case False
    then show ?thesis
      by (simp add: uploadFileToUserDrive_invalid service_unchanged_refl)
  qed
  have download: "service_unchanged s (snd (downloadFileFromUserDrive api fileId userOptions s))"
  proof (cases "fileId_missing fileId")
    case False
    from downloadFileFromUserDrive_frame [OF False] allocated show ?thesis
      by (rule built_client_unchanged)
  next
    case True
    then show ?thesis
      by (simp add: id_operations_missing service_unchanged_refl)
  qed
  have metadata: "service_unchanged s (snd (getFileMetadataFromUserDrive api fileId userOptions s))"
  proof (cases "fileId_missing fileId")
    case False
    from getFileMetadataFromUserDrive_frame [OF False] allocated show ?thesis
      by (rule built_client_unchanged)
  next
    case True
    then show ?thesis
      by (simp add: id_operations_missing service_unchanged_refl)
  qed
  have test: "service_unchanged s (snd (testUserDriveConnection api userOptions s))"
    using testUserDriveConnection_frame allocated by (rule built_client_unchanged)
  from upload download metadata test show ?thesis
    by (simp add: uploadFileToUserDrive_frame(1) downloadFileFromUserDrive_frame(1)
          getFileMetadataFromUserDrive_frame(1) testUserDriveConnection_frame(1)
          fileId_missing_iff)
qed

lemma initializeDrive_allocated:
  "initializeDrive api opts r = Inr s \<Longrightarrow> auth (this_drive s) < lim s"
  by (auto simp: initializeDrive_def OAuth2_new_def setCredentials_def google_drive_def Let_def
        split: option.splits if_splits)

lemma initializeDrive_mock: "initializeDrive mock_api mockOptions empty_runtime = Inr mock_service"
  by (simp add: initializeDrive_def OAuth2_new_def setCredentials_def google_drive_def Let_def
        mock_api_def resolving_def mockOptions_def empty_runtime_def mock_service_def
        optional_string_def DRIVE_API_VERSION_def)

theorem per_user_operations_frame_witness:
  "auth (this_drive mock_service) < lim mock_service
   \<and> validateFileName (name report_upload)
   \<and> ''test-file-id'' \<noteq> []
   \<and> \<not> (\<forall>c \<in> set ''test-file-id''. isWhiteSpace c)
   \<and> service_unchanged mock_service
        (snd (uploadFileToUserDrive mock_api (Buffer []) report_upload mockUser mock_service))
   \<and> built_client mockUser mock_service
        (snd (uploadFileToUserDrive mock_api (Buffer []) report_upload mockUser mock_service))
   \<and> service_unchanged mock_service
        (snd (downloadFileFromUserDrive mock_api ''test-file-id'' mockUser mock_service))
   \<and> built_client mockUser mock_service
        (snd (downloadFileFromUserDrive mock_api ''test-file-id'' mockUser mock_service))
   \<and> service_unchanged mock_service
        (snd (getFileMetadataFromUserDrive mock_api ''test-file-id'' mockUser mock_service))
   \<and> built_client mockUser mock_service
        (snd (getFileMetadataFromUserDrive mock_api ''test-file-id'' mockUser mock_service))
   \<and> service_unchanged mock_service (snd (testUserDriveConnection mock_api mockUser mock_service))
   \<and> built_client mockUser mock_service (snd (testUserDriveConnection mock_api mockUser mock_service))"
proof -
  have allocated: "auth (this_drive mock_service) < lim mock_service"
    using initializeDrive_mock by (rule initializeDrive_allocated)
  have valid: "validateFileName (name report_upload)"
    by (simp add: report_upload_def validateFileName_report_pdf)
  have present: "''test-file-id'' \<noteq> [] \<and> \<not> (\<forall>c \<in> set ''test-file-id''. isWhiteSpace c)"
    by (simp add: isWhiteSpace_def)
  from per_user_operations_frame
         [OF allocated, where api = mock_api and content = "Buffer []" and options = report_upload
            and userOptions = mockUser and fileId = "''test-file-id''"]
       allocated valid present
  show ?thesis by blast
qed

subsection \<open>The MIME type sent with an upload\<close>

lemma create_mimeTypes_append:
  "create_mimeTypes (xs @ ys) = create_mimeTypes xs @ create_mimeTypes ys"
  by (induction xs rule: create_mimeTypes.induct) simp_all

lemma truthy_getMimeTypeFromExtension: "truthy (getMimeTypeFromExtension fileName)"
  by (simp add: getMimeTypeFromExtension_def Let_def split: option.split)

lemma uploadFile_empty_mimeType:
  "uploadFile api content (options\<lparr>mimeType := Some []\<rparr>) s
     = uploadFile api content (options\<lparr>mimeType := None\<rparr>) s"
  by (simp add: uploadFile_def optional_string_def Let_def split: sum.split)

lemma uploadFileToUserDrive_empty_mimeType:
  "uploadFileToUserDrive api content (options\<lparr>mimeType := Some []\<rparr>) userOptions s
     = uploadFileToUserDrive api content (options\<lparr>mimeType := None\<rparr>) userOptions s"
  by (simp add: uploadFileToUserDrive_def optional_string_def Let_def
        split: sum.split prod.split)

lemma uploadFile_mimeTypes_sent:
  "create_mimeTypes (calls (snd (uploadFile api content (options\<lparr>mimeType := None\<rparr>) s)))
     = create_mimeTypes (calls s) @
       (if validateFileName (name options) then [getMimeTypeFromExtension (name options)] else [])"
  by (simp add: uploadFile_def optional_string_def Let_def create_mimeTypes_append
        split: sum.split)

lemma uploadFileToUserDrive_mimeTypes_sent:
  "create_mimeTypes
     (calls (snd (uploadFileToUserDrive api content (options\<lparr>mimeType := None\<rparr>) userOptions s)))
     = create_mimeTypes (calls s) @
       (if validateFileName (name options) \<and> drive_throws api = None
        then [getMimeTypeFromExtension (name options)] else [])"
proof (cases "drive_throws api")
  case None
  then show ?thesis
    by (simp add: uploadFileToUserDrive_def optional_string_def Let_def create_mimeTypes_append
          createUserDriveInstance_def OAuth2_new_def setCredentials_def google_drive_def
          split: sum.split)
next
  case (Some e)
  then show ?thesis
    by (simp add: uploadFileToUserDrive_def optional_string_def Let_def
          createUserDriveInstance_def OAuth2_new_def setCredentials_def google_drive_def)
qed

text \<open>
  C10. An upload whose options set \<open>mimeType\<close> to the empty string behaves exactly as the
  same upload with no \<open>mimeType\<close>, for \<open>uploadFile\<close> and for \<open>uploadFileToUserDrive\<close>: the
  outcome and the state after the call are the same, the one create call it issues
  (none when the name is invalid or, for the per-user variant, when no handle could be
  built) carries the MIME type inferred from the name's extension, and that type is never
  the empty string.
\<close>

theorem empty_mimeType_is_inferred:
  "uploadFile api content (options\<lparr>mimeType := Some []\<rparr>) s
     = uploadFile api content (options\<lparr>mimeType := None\<rparr>) s
   \<and> uploadFileToUserDrive api content (options\<lparr>mimeType := Some []\<rparr>) userOptions s
     = uploadFileToUserDrive api content (options\<lparr>mimeType := None\<rparr>) userOptions s
   \<and> create_mimeTypes (calls (snd (uploadFile api content (options\<lparr>mimeType := Some []\<rparr>) s)))
     = create_mimeTypes (calls s) @
       (if validateFileName (name options) then [getMimeTypeFromExtension (name options)] else [])
   \<and> create_mimeTypes
       (calls (snd (uploadFileToUserDrive api content (options\<lparr>mimeType := Some []\<rparr>) userOptions s)))
     = create_mimeTypes (calls s) @
       (if validateFileName (name options) \<and> drive_throws api = None
        then [getMimeTypeFromExtension (name options)] else [])
   \<and> getMimeTypeFromExtension (name options) \<noteq> JsString []"
proof (intro conjI)
  show "getMimeTypeFromExtension (name options) \<noteq> JsString []"
    using truthy_getMimeTypeFromExtension [of "name options"] by auto
qed (simp_all only: uploadFile_empty_mimeType uploadFileToUserDrive_empty_mimeType
       uploadFile_mimeTypes_sent uploadFileToUserDrive_mimeTypes_sent)

theorem empty_mimeType_is_inferred_witness:
  "validateFileName (name report_upload)
   \<and> drive_throws mock_api = None
   \<and> create_mimeTypes (calls mock_service) = []
   \<and> create_mimeTypes
       (calls (snd (uploadFile mock_api (Buffer []) (report_upload\<lparr>mimeType := Some []\<rparr>)
                     mock_service)))
     = [JsString ''application/pdf'']
   \<and> create_mimeTypes
       (calls (snd (uploadFileToUserDrive mock_api (Buffer [])
                     (report_upload\<lparr>mimeType := Some []\<rparr>) mockUser mock_service)))
     = [JsString ''application/pdf'']"
proof -
  have valid: "validateFileName (name report_upload)"
    and pdf: "getMimeTypeFromExtension (name report_upload) = JsString ''application/pdf''"
    by (simp_all add: report_upload_def validateFileName_report_pdf
          getMimeTypeFromExtension_report_pdf)
  have builds: "drive_throws mock_api = None"
    by (simp add: mock_api_def resolving_def)
  have none: "create_mimeTypes (calls mock_service) = []"
    by (simp add: mock_service_def)
  note inferred = empty_mimeType_is_inferred
         [where api = mock_api and content = "Buffer []" and options = report_upload
            and s = mock_service and userOptions = mockUser]
  from inferred have module_wide:
    "create_mimeTypes
       (calls (snd (uploadFile mock_api (Buffer []) (report_upload\<lparr>mimeType := Some []\<rparr>)
                     mock_service)))
     = create_mimeTypes (calls mock_service) @
       (if validateFileName (name report_upload)
        then [getMimeTypeFromExtension (name report_upload)] else [])"
    by blast
  from inferred have per_user:
    "create_mimeTypes
       (calls (snd (uploadFileToUserDrive mock_api (Buffer [])
                     (report_upload\<lparr>mimeType := Some []\<rparr>) mockUser mock_service)))
     = create_mimeTypes (calls mock_service) @
       (if validateFileName (name report_upload) \<and> drive_throws mock_api = None
        then [getMimeTypeFromExtension (name report_upload)] else [])"
    by blast
  from module_wide per_user valid pdf builds none
  show ?thesis by simp
qed

end
